theory Spec2Isabelle
  imports Main "HOL-Library.Sublist"
begin

section \<open>The etcd starter: data model\<close>

text \<open>
  A shallow embedding of \<^verbatim>\<open>starter/starter.go\<close>. Everything the starter reads from
  outside (flag parsing, the file system, the legacy decoders, the network, process
  replacement) is a field of the record \<open>extern\<close>; the process's own mutable state
  (the lines it printed, \<^verbatim>\<open>os.Args\<close>, the environment) is the record \<open>pstate\<close>,
  passed through every function that changes it.
\<close>

subsection \<open>Versions and errors\<close>

text \<open>
  \<^verbatim>\<open>type version string\<close> with its four internal constants, used as an enumeration.
  (\<^verbatim>\<open>internalUnknown\<close> is the string "unknown".)
\<close>

datatype version = internalV1 | internalV2 | internalV2Proxy | internalUnknown

definition v2SpecialFlags :: "string list" where
  "v2SpecialFlags =
     [''initial-cluster'', ''listen-peer-urls'', ''listen-client-urls'', ''proxy'']"

text \<open>
  A Go \<^verbatim>\<open>error\<close> value: its message, and whether \<^verbatim>\<open>os.IsNotExist\<close> holds of it.
\<close>

datatype error = Error (IsNotExist: bool) (Message: string)

text \<open>
  Modelled from the spec: the type \<^verbatim>\<open>wal.WalVersion\<close> is not among the sources. The
  spec's classifier returns one of LegacyFormat, CurrentFormat, CurrentFormatProxy,
  Absent, Unrecognized; the switch of \<^verbatim>\<open>checkInternalVersion\<close> names them
  \<^verbatim>\<open>WALv0_4\<close>, \<^verbatim>\<open>WALv2_0\<close> and \<^verbatim>\<open>WALv2_0_1\<close>, \<^verbatim>\<open>WALv2_0Proxy\<close>, \<^verbatim>\<open>WALNotExist\<close>,
  \<^verbatim>\<open>WALUnknown\<close>. \<open>WALOther\<close> stands for any other value, which the switch does not
  handle.
\<close>

datatype WalVersion =
  WALUnknown | WALNotExist | WALv0_4 | WALv2_0 | WALv2_0Proxy | WALv2_0_1 | WALOther string

text \<open>The ways the process stops without a handoff.\<close>

datatype halt =
  Fatal            \<comment> \<open>\<^verbatim>\<open>log.Fatalf\<close>: the message is printed, the process exits with status 1\<close>
  | Panicked       \<comment> \<open>\<^verbatim>\<open>log.Panicf\<close>\<close>
  | NilDereference string
      \<comment> \<open>a run-time panic: a field read through the named pointer, which is nil\<close>

subsection \<open>Configuration, markers, legacy store\<close>

text \<open>
  A \<^verbatim>\<open>flag.FlagSet\<close> after parsing: the registered flag names with their values.
  \<^verbatim>\<open>fs.Lookup(name)\<close> is nil for a name that was never registered.
\<close>

type_synonym FlagSet = "string \<rightharpoonup> string"

record TLSInfo =
  CAFile :: string
  CertFile :: string
  KeyFile :: string

text \<open>
  Modelled from the spec: the type \<^verbatim>\<open>migrate.StandbyInfo4\<close> is not among the sources.
  The spec's standby marker is "a running flag, a list of client-reachable URLs, and an
  initial-cluster membership string"; the two methods \<^verbatim>\<open>ClientURLs()\<close> and
  \<^verbatim>\<open>InitialCluster()\<close> are the fields of the same names.
\<close>

record StandbyInfo4 =
  Running :: bool
  ClientURLs :: "string list"
  InitialCluster :: string

text \<open>
  Modelled from the spec: \<^verbatim>\<open>migrate.Store4\<close> and its nodes are not among the sources.
  The resolver reads \<^verbatim>\<open>st.Root.Children["_etcd"]\<close>, then
  \<^verbatim>\<open>dir.Children["next-internal-version"]\<close> and \<^verbatim>\<open>n.Value\<close>: a node has a value and a
  map from names to node pointers. In \<open>Children\<close>, \<open>None\<close> is a missing key,
  \<open>Some None\<close> a key bound to the nil pointer, \<open>Some (Some n)\<close> a key bound to a node.
\<close>

datatype node = Node (Value: string) (Children: "string \<Rightarrow> node option option")

record Store4 =
  Root :: "node option"

text \<open>
  Modelled from the spec: the decoders' types are not among the sources. The latest
  snapshot carries the raw state the resolver unmarshals (\<^verbatim>\<open>snap4.State\<close>); a log
  entry carries the name and the bytes of its command (\<^verbatim>\<open>e.GetCommandName()\<close>,
  \<^verbatim>\<open>e.GetCommand()\<close>).
\<close>

record Snapshot4 =
  State :: string

record LogEntry4 =
  CommandName :: string
  Command :: string

text \<open>
  Modelled from the spec: what \<^verbatim>\<open>migrate.NewCommand4\<close> builds is not among the
  sources. The inspector tells a \<^verbatim>\<open>*migrate.SetCommand\<close>, with its \<^verbatim>\<open>Key\<close> and
  \<^verbatim>\<open>Value\<close>, from a command of any other type.
\<close>

datatype Command4 = SetCommand string string | OtherCommand

subsection \<open>Network and discovery\<close>

text \<open>
  The \<^verbatim>\<open>http.Client\<close> of \<^verbatim>\<open>newDefaultClient\<close>: its transport carries the TLS
  configuration of a \<open>TLSInfo\<close> when the scheme is https, none otherwise.
\<close>

datatype Client = Client "TLSInfo option"

text \<open>An HTTP response, by what \<^verbatim>\<open>ioutil.ReadAll(resp.Body)\<close> returns for it.\<close>

record Response =
  Body :: "error + string"

text \<open>A parsed \<^verbatim>\<open>url.URL\<close>: its path, and the rest of it (scheme, host, query).\<close>

record URL =
  Path :: string
  Remainder :: string

text \<open>
  Modelled from the spec: the vendored etcd client is not among the sources. The
  discovery lookup returns "a set of child entries whose values are peer URLs"; the
  resolver reads the key and the value of each (\<^verbatim>\<open>n.Key\<close>, \<^verbatim>\<open>n.Value\<close>).
\<close>

record DiscoveryNode =
  Key :: string
  NodeValue :: string

subsection \<open>Diagnostics\<close>

text \<open>
  One constructor for each \<^verbatim>\<open>fmt.Printf\<close>, \<^verbatim>\<open>log.Printf\<close>, \<^verbatim>\<open>log.Fatalf\<close> and
  \<^verbatim>\<open>log.Panicf\<close> of the source, with the arguments of its format string.
\<close>

datatype diag =
  StartingVersion version
    \<comment> \<open>etcd-starter: starting etcd version %s\<close>
  | DetectedStandbyInfo
    \<comment> \<open>etcd-starter: detected standby_info file. Adding --proxy=on flag to ensure node
        runs in v2.0 proxy mode.\<close>
  | MustAddProxy
    \<comment> \<open>etcd-starter: before removing v0.4 data, --proxy=on flag MUST be added.\<close>
  | UnhandledStartVersion
    \<comment> \<open>etcd-starter: unhandled start version\<close>
  | StartingWith string "string list" "string list"
    \<comment> \<open>etcd-starter: starting with %s %v with env %v\<close>
  | FailedToExecute string error
    \<comment> \<open>etcd-starter: failed to execute %s: %v\<close>
  | DataDirNotSet
    \<comment> \<open>etcd-starter: data-dir is not set\<close>
  | FailedToDetect string error
    \<comment> \<open>etcd-starter: failed to detect etcd version in %v: %v\<close>
  | DetectedVersion WalVersion string
    \<comment> \<open>etcd-starter: detected etcd version %s in %s\<close>
  | FailedToDecodeStandbyInfo string error
    \<comment> \<open>etcd-starter: failed to decode standbyInfo in %v: %v\<close>
  | FailedToCheckThroughPeers error
    \<comment> \<open>etcd-starter: failed to check start version through peers: %v\<close>
  | FailedToCheckInDataDir string error
    \<comment> \<open>etcd-starter: failed to check start version in %v: %v\<close>
  | FailedToGetPeersFromDiscovery string error
    \<comment> \<open>etcd-starter: failed to get peers from discovery %s: %v\<close>
  | UnrecognizedContents string
    \<comment> \<open>etcd-starter: unrecognized contents in data directory %s\<close>
  | UnhandledEtcdVersion string
    \<comment> \<open>etcd-starter: unhandled etcd version in %v\<close>
  | NewClientError error
    \<comment> \<open>etcd-starter: new client error: %v\<close>
  | FailedToGetEtcdURL string
    \<comment> \<open>etcd-starter: failed to get /etcdURL from %s\<close>
  | FailedToGetVersion string
    \<comment> \<open>etcd-starter: failed to get /version from %s\<close>
  | FailedToReadBody string
    \<comment> \<open>etcd-starter: failed to read body from %s\<close>
  | FailedToUnmarshalBody string string
    \<comment> \<open>etcd-starter: failed to unmarshal body %s from %s\<close>
  | UnrecognizedInternalVersion string string
    \<comment> \<open>etcd-starter: unrecognized internal version %s from %s\<close>

subsection \<open>Process state and external collaborators\<close>

record pstate =
  out :: "diag list"                   \<comment> \<open>the lines printed so far, oldest first\<close>
  osArgs :: "string list"              \<comment> \<open>the global \<^verbatim>\<open>os.Args\<close>\<close>
  environ :: "(string \<times> string) list"  \<comment> \<open>the environment variables\<close>

definition say :: "diag \<Rightarrow> pstate \<Rightarrow> pstate" where
  "say d st = st\<lparr>out := out st @ [d]\<rparr>"

text \<open>
  The collaborators. A Go function returning \<^verbatim>\<open>(value, error)\<close> whose caller tests
  only the error first is a sum; one whose caller also tests the value for nil is a pair.
\<close>

record extern =
  pathClean :: "string \<Rightarrow> string"
    \<comment> \<open>\<^verbatim>\<open>path.Clean\<close>\<close>
  flagParse :: "string list \<Rightarrow> FlagSet \<times> error option"
    \<comment> \<open>the flag set with every etcd flag registered, after \<^verbatim>\<open>fs.Parse(args)\<close>\<close>
  setFlagsFromEnv :: "FlagSet \<Rightarrow> (string \<times> string) list \<Rightarrow> error + FlagSet"
    \<comment> \<open>\<^verbatim>\<open>flags.SetFlagsFromEnv\<close>\<close>
  tlsScheme :: "TLSInfo \<Rightarrow> string"
    \<comment> \<open>\<^verbatim>\<open>(*TLSInfo).Scheme\<close>\<close>
  tlsClientConfig :: "TLSInfo \<Rightarrow> error option"
    \<comment> \<open>\<^verbatim>\<open>(*TLSInfo).ClientConfig\<close>: whether building the configuration fails\<close>
  detectVersion :: "string \<Rightarrow> error + WalVersion"
    \<comment> \<open>\<^verbatim>\<open>wal.DetectVersion\<close>\<close>
  osStat :: "string \<Rightarrow> error option"
    \<comment> \<open>the error of \<^verbatim>\<open>os.Stat\<close>\<close>
  decodeStandbyInfo4FromFile :: "string \<Rightarrow> StandbyInfo4 option \<times> error option"
  decodeLatestSnapshot4FromDir :: "string \<Rightarrow> Snapshot4 option \<times> error option"
  unmarshalStore4 :: "string \<Rightarrow> error + Store4"
    \<comment> \<open>\<^verbatim>\<open>json.Unmarshal\<close> into a \<^verbatim>\<open>migrate.Store4\<close>\<close>
  decodeLog4FromFile :: "string \<Rightarrow> LogEntry4 list \<times> error option"
  newCommand4 :: "string \<Rightarrow> string \<Rightarrow> error + Command4"
  httpGet :: "Client \<Rightarrow> string \<Rightarrow> error + Response"
    \<comment> \<open>\<^verbatim>\<open>c.Get(url)\<close>\<close>
  unmarshalStringMap :: "string \<Rightarrow> error + (string \<rightharpoonup> string)"
    \<comment> \<open>\<^verbatim>\<open>json.Unmarshal\<close> into a \<^verbatim>\<open>map[string]string\<close>\<close>
  urlParse :: "string \<Rightarrow> error + URL"
  urlString :: "URL \<Rightarrow> string"
  clientNew :: "string list \<Rightarrow> error option"
    \<comment> \<open>\<^verbatim>\<open>client.New\<close> for the given endpoints\<close>
  keysGet :: "string list \<Rightarrow> string \<Rightarrow> error + DiscoveryNode list"
    \<comment> \<open>\<^verbatim>\<open>dc.Get(ctx, token, nil)\<close>: the child nodes of the response\<close>
  sysExec :: "string \<Rightarrow> string list \<Rightarrow> string list \<Rightarrow> error option"
    \<comment> \<open>\<^verbatim>\<open>syscall.Exec\<close>: \<open>None\<close> when the process image was replaced\<close>

section \<open>Strings and paths\<close>

text \<open>\<^verbatim>\<open>strings.Join\<close>.\<close>

fun Join :: "string list \<Rightarrow> string \<Rightarrow> string" where
  "Join [] sep = []"
| "Join [x] sep = x"
| "Join (x # y # ys) sep = x @ sep @ Join (y # ys) sep"

text \<open>
  \<^verbatim>\<open>strings.Split(s, sep)\<close> for a non-empty separator: the fields between the
  leftmost non-overlapping occurrences of \<open>sep\<close>. \<open>SplitFrom sep field s\<close> scans \<open>s\<close>
  with \<open>field\<close> the bytes read since the last separator. (For the empty separator Go
  cuts after every UTF-8 sequence; the starter never passes one, and this model returns
  the string unsplit.)
\<close>

fun SplitFrom :: "string \<Rightarrow> string \<Rightarrow> string \<Rightarrow> string list" where
  "SplitFrom sep field [] = [field]"
| "SplitFrom sep field (c # cs) =
     (if sep \<noteq> [] \<and> prefix sep (c # cs)
      then field # SplitFrom sep [] (drop (length sep - 1) cs)
      else SplitFrom sep (field @ [c]) cs)"

definition Split :: "string \<Rightarrow> string \<Rightarrow> string list" where
  "Split s sep = SplitFrom sep [] s"

text \<open>
  \<^verbatim>\<open>strings.TrimSpace\<close>: the string without its leading and trailing white space, as
  \<^verbatim>\<open>unicode.IsSpace\<close> defines it. A Go string is a byte sequence read as UTF-8, so the
  white-space runes are listed by their encodings: tab, line feed, vertical tab, form
  feed, carriage return, space, U+0085, U+00A0, U+1680, U+2000 to U+200A, U+2028,
  U+2029, U+202F, U+205F and U+3000.
\<close>

definition spaceEncodings :: "string list" where
  "spaceEncodings =
     [[CHR 0x09], [CHR 0x0A], [CHR 0x0B], [CHR 0x0C], [CHR 0x0D], [CHR 0x20],
      [CHR 0xC2, CHR 0x85], [CHR 0xC2, CHR 0xA0],
      [CHR 0xE1, CHR 0x9A, CHR 0x80],
      [CHR 0xE2, CHR 0x80, CHR 0x80], [CHR 0xE2, CHR 0x80, CHR 0x81],
      [CHR 0xE2, CHR 0x80, CHR 0x82], [CHR 0xE2, CHR 0x80, CHR 0x83],
      [CHR 0xE2, CHR 0x80, CHR 0x84], [CHR 0xE2, CHR 0x80, CHR 0x85],
      [CHR 0xE2, CHR 0x80, CHR 0x86], [CHR 0xE2, CHR 0x80, CHR 0x87],
      [CHR 0xE2, CHR 0x80, CHR 0x88], [CHR 0xE2, CHR 0x80, CHR 0x89],
      [CHR 0xE2, CHR 0x80, CHR 0x8A],
      [CHR 0xE2, CHR 0x80, CHR 0xA8], [CHR 0xE2, CHR 0x80, CHR 0xA9],
      [CHR 0xE2, CHR 0x80, CHR 0xAF],
      [CHR 0xE2, CHR 0x81, CHR 0x9F],
      [CHR 0xE3, CHR 0x80, CHR 0x80]]"

text \<open>The width in bytes of the white-space rune a string starts (ends) with; 0 if none.\<close>

definition leadingSpace :: "string \<Rightarrow> nat" where
  "leadingSpace s = (case find (\<lambda>q. prefix q s) spaceEncodings of None \<Rightarrow> 0 | Some q \<Rightarrow> length q)"

definition trailingSpace :: "string \<Rightarrow> nat" where
  "trailingSpace s = (case find (\<lambda>q. suffix q s) spaceEncodings of None \<Rightarrow> 0 | Some q \<Rightarrow> length q)"

text \<open>
  The two loops of \<^verbatim>\<open>TrimSpace\<close>: drop white-space runes from the front, then from
  the back, until the string starts (ends) with something else.
\<close>

function TrimLeftSpace :: "string \<Rightarrow> string" where
  "TrimLeftSpace s =
     (if leadingSpace s = 0 then s else TrimLeftSpace (drop (leadingSpace s) s))"
  by pat_completeness auto
termination
proof (relation "measure length")
  fix s :: string
  assume w: "leadingSpace s \<noteq> 0"
  then have "s \<noteq> []"
    by (auto simp: leadingSpace_def spaceEncodings_def)
  with w show "(drop (leadingSpace s) s, s) \<in> measure length"
    by simp
qed simp

function TrimRightSpace :: "string \<Rightarrow> string" where
  "TrimRightSpace s =
     (if trailingSpace s = 0 then s
      else TrimRightSpace (take (length s - trailingSpace s) s))"
  by pat_completeness auto
termination
proof (relation "measure length")
  fix s :: string
  assume w: "trailingSpace s \<noteq> 0"
  then have "s \<noteq> []"
    by (auto simp: trailingSpace_def spaceEncodings_def)
  with w show "(take (length s - trailingSpace s) s, s) \<in> measure length"
    by simp
qed simp

definition TrimSpace :: "string \<Rightarrow> string" where
  "TrimSpace s = TrimRightSpace (TrimLeftSpace s)"

text \<open>\<^verbatim>\<open>path.Join\<close>: the elements from the first non-empty one on, joined and cleaned.\<close>

definition pathJoin :: "extern \<Rightarrow> string list \<Rightarrow> string" where
  "pathJoin w elem =
     (case dropWhile (\<lambda>e. e = []) elem of
        [] \<Rightarrow> []
      | e # es \<Rightarrow> pathClean w (Join (e # es) ''/''))"

text \<open>
  \<^verbatim>\<open>path.Base\<close>: the last element of a path, after its trailing slashes are removed.
\<close>

definition pathBase :: "string \<Rightarrow> string" where
  "pathBase p =
     (if p = [] then ''.''
      else let q = rev (dropWhile (\<lambda>c. c = CHR ''/'') (rev p));
               b = rev (takeWhile (\<lambda>c. c \<noteq> CHR ''/'') (rev q))
           in if b = [] then ''/'' else b)"

definition snapDir4 :: "extern \<Rightarrow> string \<Rightarrow> string" where
  "snapDir4 w dataDir = pathJoin w [dataDir, ''snapshot'']"

definition logFile4 :: "extern \<Rightarrow> string \<Rightarrow> string" where
  "logFile4 w dataDir = pathJoin w [dataDir, ''log'']"

definition standbyInfo4 :: "extern \<Rightarrow> string \<Rightarrow> string" where
  "standbyInfo4 w dataDir = pathJoin w [dataDir, ''standby_info'']"

definition trimSplit :: "string \<Rightarrow> string \<Rightarrow> string list" where
  "trimSplit s sep = map TrimSpace (Split s sep)"

section \<open>Peers and clients\<close>

text \<open>
  \<^verbatim>\<open>getPeersFromPeersFlag\<close>: every field of the comma-separated flag, trimmed, behind
  the scheme of the peer TLS settings.
\<close>

definition getPeersFromPeersFlag :: "extern \<Rightarrow> string \<Rightarrow> TLSInfo \<Rightarrow> string list" where
  "getPeersFromPeersFlag w str tls =
     map (\<lambda>p. tlsScheme w tls @ ''://'' @ p) (trimSplit str '','')"

definition newDefaultClient :: "extern \<Rightarrow> TLSInfo \<Rightarrow> error + Client" where
  "newDefaultClient w tls =
     (if tlsScheme w tls = ''https''
      then (case tlsClientConfig w tls of
              Some err \<Rightarrow> Inl err
            | None \<Rightarrow> Inr (Client (Some tls)))
      else Inr (Client None))"

text \<open>The loop of \<^verbatim>\<open>getClientURLsByPeerURLs\<close> over the peers.\<close>

fun collectClientURLs :: "extern \<Rightarrow> Client \<Rightarrow> string list \<Rightarrow> pstate \<Rightarrow> string list \<times> pstate" where
  "collectClientURLs w c [] st = ([], st)"
| "collectClientURLs w c (u # us) st =
     (case httpGet w c (u @ ''/etcdURL'') of
        Inl err \<Rightarrow> collectClientURLs w c us (say (FailedToGetEtcdURL u) st)
      | Inr resp \<Rightarrow>
          (case Body resp of
             Inl err \<Rightarrow> collectClientURLs w c us (say (FailedToReadBody u) st)
           | Inr b \<Rightarrow>
               (let (urls, st') = collectClientURLs w c us st in (b # urls, st'))))"

definition getClientURLsByPeerURLs ::
    "extern \<Rightarrow> string list \<Rightarrow> TLSInfo \<Rightarrow> pstate \<Rightarrow> string list \<times> pstate" where
  "getClientURLsByPeerURLs w peers tls st =
     (case newDefaultClient w tls of
        Inl err \<Rightarrow> ([], say (NewClientError err) st)
      | Inr c \<Rightarrow> collectClientURLs w c peers st)"

section \<open>The peer version probe\<close>

text \<open>
  \<^verbatim>\<open>fmt.Errorf("failed to get version from urls %v", urls)\<close>: the verb \<^verbatim>\<open>%v\<close> prints
  a slice of strings between brackets, its elements separated by one space.
\<close>

definition failedToGetVersion :: "string list \<Rightarrow> error" where
  "failedToGetVersion urls =
     Error False (''failed to get version from urls ['' @ Join urls '' '' @ '']'')"

text \<open>
  The loop of \<^verbatim>\<open>checkInternalVersionByClientURLs\<close>: \<open>urls\<close> is the whole list (for
  the final error), the third argument the candidates still to try.
\<close>

fun scanVersions ::
    "extern \<Rightarrow> Client \<Rightarrow> string list \<Rightarrow> string list \<Rightarrow> pstate
      \<Rightarrow> (version \<times> error option) \<times> pstate" where
  "scanVersions w c urls [] st = ((internalUnknown, Some (failedToGetVersion urls)), st)"
| "scanVersions w c urls (u # us) st =
     (case httpGet w c (u @ ''/version'') of
        Inl err \<Rightarrow> scanVersions w c urls us (say (FailedToGetVersion u) st)
      | Inr resp \<Rightarrow>
          (case Body resp of
             Inl err \<Rightarrow> scanVersions w c urls us (say (FailedToReadBody u) st)
           | Inr b \<Rightarrow>
               (case unmarshalStringMap w b of
                  Inl err \<Rightarrow> scanVersions w c urls us (say (FailedToUnmarshalBody b u) st)
                | Inr m \<Rightarrow>
                    (let iv = (case m ''internalVersion'' of None \<Rightarrow> [] | Some v \<Rightarrow> v) in
                     if iv = ''1'' then ((internalV1, None), st)
                     else if iv = ''2'' then ((internalV2, None), st)
                     else scanVersions w c urls us
                            (say (UnrecognizedInternalVersion iv u) st)))))"

definition checkInternalVersionByClientURLs ::
    "extern \<Rightarrow> string list \<Rightarrow> TLSInfo \<Rightarrow> pstate \<Rightarrow> (version \<times> error option) \<times> pstate" where
  "checkInternalVersionByClientURLs w urls tls st =
     (case newDefaultClient w tls of
        Inl err \<Rightarrow> ((internalUnknown, Some err), st)
      | Inr c \<Rightarrow> scanVersions w c urls urls st)"

section \<open>Discovery\<close>

definition getPeersFromDiscoveryURL :: "extern \<Rightarrow> string \<Rightarrow> string list \<times> error option" where
  "getPeersFromDiscoveryURL w discoverURL =
     (if discoverURL = [] then ([], None)
      else case urlParse w discoverURL of
        Inl err \<Rightarrow> ([], Some err)
      | Inr u \<Rightarrow>
          (let token = Path u;
               endpoints = [urlString w (u\<lparr>Path := []\<rparr>)]
           in case clientNew w endpoints of
                Some err \<Rightarrow> ([], Some err)
              | None \<Rightarrow>
                  (case keysGet w endpoints token of
                     Inl err \<Rightarrow> ([], Some err)
                   | Inr nodes \<Rightarrow>
                       (map NodeValue
                          (filter (\<lambda>n. \<not> (pathBase (Key n) = ''_config''
                                           \<or> pathBase (Key n) = ''_state'')) nodes),
                        None))))"

section \<open>The legacy-store migration inspector\<close>

text \<open>
  The body of \<^verbatim>\<open>if snap4 != nil\<close>: \<open>Inr (Some r)\<close> returns \<open>r\<close> from the inspector,
  \<open>Inr None\<close> falls through to the command log, \<open>Inl (NilDereference p)\<close> is the panic
  of reading a field through \<^verbatim>\<open>st.Root\<close>, \<^verbatim>\<open>dir\<close> or \<^verbatim>\<open>n\<close> when that pointer is nil.
  The index expression \<^verbatim>\<open>st.Root.Children["_etcd"]\<close> yields nil for a missing key.
\<close>

definition lookupChild :: "node \<Rightarrow> string \<Rightarrow> node option" where
  "lookupChild d name = (case Children d name of None \<Rightarrow> None | Some p \<Rightarrow> p)"

definition checkSnapshot4 ::
    "extern \<Rightarrow> Snapshot4 \<Rightarrow> halt + (version \<times> error option) option" where
  "checkSnapshot4 w snap4 =
     (case unmarshalStore4 w (State snap4) of
        Inl err \<Rightarrow> Inr (Some (internalUnknown, Some err))
      | Inr st \<Rightarrow>
          (case Root st of
             None \<Rightarrow> Inl (NilDereference ''st.Root'')
           | Some root \<Rightarrow>
               (case lookupChild root ''_etcd'' of
                  None \<Rightarrow> Inl (NilDereference ''dir'')
                | Some dir \<Rightarrow>
                    (case Children dir ''next-internal-version'' of
                       None \<Rightarrow> Inr None
                     | Some None \<Rightarrow> Inl (NilDereference ''n'')
                     | Some (Some n) \<Rightarrow>
                         if Value n = ''2'' then Inr (Some (internalV2, None))
                         else Inr None))))"

text \<open>The loop over the entries of the command log.\<close>

fun checkLog4 :: "extern \<Rightarrow> LogEntry4 list \<Rightarrow> version \<times> error option" where
  "checkLog4 w [] = (internalV1, None)"
| "checkLog4 w (e # es) =
     (case newCommand4 w (CommandName e) (Command e) of
        Inl err \<Rightarrow> (internalUnknown, Some err)
      | Inr cmd \<Rightarrow>
          (case cmd of
             SetCommand key val \<Rightarrow>
               if key = ''/_etcd/next-internal-version'' \<and> val = ''2''
               then (internalV2, None)
               else checkLog4 w es
           | OtherCommand \<Rightarrow> checkLog4 w es))"

definition checkInternalVersionByLog4 :: "extern \<Rightarrow> string \<Rightarrow> version \<times> error option" where
  "checkInternalVersionByLog4 w dataDir =
     (case decodeLog4FromFile w (logFile4 w dataDir) of
        (ents4, Some err) \<Rightarrow> (internalUnknown, Some err)
      | (ents4, None) \<Rightarrow> checkLog4 w ents4)"

definition checkInternalVersionByDataDir4 ::
    "extern \<Rightarrow> string \<Rightarrow> halt + (version \<times> error option)" where
  "checkInternalVersionByDataDir4 w dataDir =
     (case decodeLatestSnapshot4FromDir w (snapDir4 w dataDir) of
        (snap4, Some err) \<Rightarrow> Inr (internalUnknown, Some err)
      | (None, None) \<Rightarrow> Inr (checkInternalVersionByLog4 w dataDir)
      | (Some s, None) \<Rightarrow>
          (case checkSnapshot4 w s of
             Inl h \<Rightarrow> Inl h
           | Inr (Some r) \<Rightarrow> Inr r
           | Inr None \<Rightarrow> Inr (checkInternalVersionByLog4 w dataDir)))"

section \<open>The epoch resolver\<close>

text \<open>\<^verbatim>\<open>fs.Lookup(name).Value.String()\<close>: a panic when the flag is not registered.\<close>

definition lookupValue :: "FlagSet \<Rightarrow> string \<Rightarrow> halt + string" where
  "lookupValue fs name =
     (case fs name of
        None \<Rightarrow> Inl (NilDereference (''fs.Lookup('' @ name @ '')''))
      | Some v \<Rightarrow> Inr v)"

definition clientTLSInfo :: "FlagSet \<Rightarrow> halt + TLSInfo" where
  "clientTLSInfo fs =
     (case lookupValue fs ''ca-file'' of Inl h \<Rightarrow> Inl h | Inr ca \<Rightarrow>
      case lookupValue fs ''cert-file'' of Inl h \<Rightarrow> Inl h | Inr cert \<Rightarrow>
      case lookupValue fs ''key-file'' of Inl h \<Rightarrow> Inl h | Inr key \<Rightarrow>
        Inr \<lparr>CAFile = ca, CertFile = cert, KeyFile = key\<rparr>)"

definition peerTLSInfo :: "FlagSet \<Rightarrow> halt + TLSInfo" where
  "peerTLSInfo fs =
     (case lookupValue fs ''peer-ca-file'' of Inl h \<Rightarrow> Inl h | Inr ca \<Rightarrow>
      case lookupValue fs ''peer-cert-file'' of Inl h \<Rightarrow> Inl h | Inr cert \<Rightarrow>
      case lookupValue fs ''peer-key-file'' of Inl h \<Rightarrow> Inl h | Inr key \<Rightarrow>
        Inr \<lparr>CAFile = ca, CertFile = cert, KeyFile = key\<rparr>)"

text \<open>
  The first loop of \<^verbatim>\<open>checkInternalVersion\<close>: whether one of the given flags has a
  non-empty value.
\<close>

fun anyFlagSet :: "FlagSet \<Rightarrow> string list \<Rightarrow> halt + bool" where
  "anyFlagSet fs [] = Inr False"
| "anyFlagSet fs (name # names) =
     (case lookupValue fs name of
        Inl h \<Rightarrow> Inl h
      | Inr v \<Rightarrow> if v \<noteq> [] then Inr True else anyFlagSet fs names)"

text \<open>
  Modelled from the spec: \<^verbatim>\<open>osutil.Unsetenv\<close> is not among the sources. It unsets the
  variable: the environment is left without it, the other variables as they were.
\<close>

definition Unsetenv :: "string \<Rightarrow> (string \<times> string) list \<Rightarrow> (string \<times> string) list" where
  "Unsetenv key env = filter (\<lambda>kv. fst kv \<noteq> key) env"

text \<open>
  The arm \<^verbatim>\<open>case wal.WALv0_4\<close> from \<^verbatim>\<open>inStandbyMode\<close> on (lines 128 to 147):
  the probe when the marker is there and running, the inspector (\<open>byDataDir\<close>) otherwise.
\<close>

definition checkInternalVersion_standby ::
    "extern \<Rightarrow> FlagSet \<Rightarrow> string \<Rightarrow> StandbyInfo4 option \<Rightarrow> pstate
      \<Rightarrow> (halt + version) \<times> pstate" where
  "checkInternalVersion_standby w fs dataDir standbyInfo st =
     (let byDataDir =
            (case checkInternalVersionByDataDir4 w dataDir of
               Inl h \<Rightarrow> (Inl h, st)
             | Inr (ver, Some err) \<Rightarrow>
                 (Inr internalV1, say (FailedToCheckInDataDir dataDir err) st)
             | Inr (ver, None) \<Rightarrow> (Inr ver, st))
      in case standbyInfo of
           None \<Rightarrow> byDataDir
         | Some si \<Rightarrow>
             if Running si then
               (case clientTLSInfo fs of
                  Inl h \<Rightarrow> (Inl h, st)
                | Inr tls \<Rightarrow>
                    (case checkInternalVersionByClientURLs w (ClientURLs si) tls st of
                       ((ver, Some err), st1) \<Rightarrow>
                         (Inr internalV1, say (FailedToCheckThroughPeers err) st1)
                     | ((ver, None), st1) \<Rightarrow>
                         if ver = internalV2
                         then (Inr internalV2Proxy,
                               st1\<lparr>environ := Unsetenv ''ETCD_DISCOVERY'' (environ st1),
                                   osArgs := osArgs st1
                                     @ [''-initial-cluster'', InitialCluster si]\<rparr>)
                         else (Inr ver, st1)))
             else byDataDir)"

text \<open>The arm \<^verbatim>\<open>case wal.WALv0_4\<close> (lines 122 to 147).\<close>

definition checkInternalVersion_v0_4 ::
    "extern \<Rightarrow> FlagSet \<Rightarrow> string \<Rightarrow> pstate \<Rightarrow> (halt + version) \<times> pstate" where
  "checkInternalVersion_v0_4 w fs dataDir st =
     (case decodeStandbyInfo4FromFile w (standbyInfo4 w dataDir) of
        (standbyInfo, None) \<Rightarrow> checkInternalVersion_standby w fs dataDir standbyInfo st
      | (standbyInfo, Some err) \<Rightarrow>
          if \<not> IsNotExist err
          then (Inr internalV1, say (FailedToDecodeStandbyInfo dataDir err) st)
          else checkInternalVersion_standby w fs dataDir standbyInfo st)"

text \<open>The arm \<^verbatim>\<open>case wal.WALNotExist\<close> (lines 148 to 163).\<close>

definition checkInternalVersion_notExist ::
    "extern \<Rightarrow> FlagSet \<Rightarrow> pstate \<Rightarrow> (halt + version) \<times> pstate" where
  "checkInternalVersion_notExist w fs st =
     (case lookupValue fs ''discovery'' of
        Inl h \<Rightarrow> (Inl h, st)
      | Inr discovery \<Rightarrow>
     (case getPeersFromDiscoveryURL w discovery of (dpeers, err) \<Rightarrow>
     (let st1 = (case err of
                   None \<Rightarrow> st
                 | Some e \<Rightarrow> say (FailedToGetPeersFromDiscovery discovery e) st) in
      case lookupValue fs ''peers'' of
        Inl h \<Rightarrow> (Inl h, st1)
      | Inr peerStr \<Rightarrow>
     (case peerTLSInfo fs of
        Inl h \<Rightarrow> (Inl h, st1)
      | Inr ptls \<Rightarrow>
     (let ppeers = getPeersFromPeersFlag w peerStr ptls in
      case getClientURLsByPeerURLs w (dpeers @ ppeers) ptls st1 of (urls, st2) \<Rightarrow>
     (case clientTLSInfo fs of
        Inl h \<Rightarrow> (Inl h, st2)
      | Inr ctls \<Rightarrow>
     (case checkInternalVersionByClientURLs w urls ctls st2 of
        ((ver, Some e), st3) \<Rightarrow> (Inr internalV2, say (FailedToCheckThroughPeers e) st3)
      | ((ver, None), st3) \<Rightarrow> (Inr ver, st3))))))))"

definition checkInternalVersion ::
    "extern \<Rightarrow> FlagSet \<Rightarrow> pstate \<Rightarrow> (halt + version) \<times> pstate" where
  "checkInternalVersion w fs st =
     (case anyFlagSet fs v2SpecialFlags of
        Inl h \<Rightarrow> (Inl h, st)
      | Inr True \<Rightarrow> (Inr internalV2, st)
      | Inr False \<Rightarrow>
     (case lookupValue fs ''data-dir'' of
        Inl h \<Rightarrow> (Inl h, st)
      | Inr dataDir \<Rightarrow>
          if dataDir = [] then (Inr internalV2, say DataDirNotSet st)
          else
     (case detectVersion w dataDir of
        Inl err \<Rightarrow> (Inl Fatal, say (FailedToDetect dataDir err) st)
      | Inr dataver \<Rightarrow>
     (let st1 = say (DetectedVersion dataver dataDir) st in
      case dataver of
        WALv2_0 \<Rightarrow> (Inr internalV2, st1)
      | WALv2_0_1 \<Rightarrow> (Inr internalV2, st1)
      | WALv2_0Proxy \<Rightarrow> (Inr internalV2Proxy, st1)
      | WALv0_4 \<Rightarrow> checkInternalVersion_v0_4 w fs dataDir st1
      | WALNotExist \<Rightarrow> checkInternalVersion_notExist w fs st1
      | WALUnknown \<Rightarrow> (Inr internalV2, say (UnrecognizedContents dataDir) st1)
      | WALOther x \<Rightarrow> (Inl Panicked, say (UnhandledEtcdVersion dataDir) st1)))))"

section \<open>Configuration and handoff\<close>

definition ErrHelp :: error where
  "ErrHelp = Error False ''flag: help requested''"

definition parseConfig :: "extern \<Rightarrow> string list \<Rightarrow> pstate \<Rightarrow> error + FlagSet" where
  "parseConfig w args st =
     (case flagParse w args of
        (fs, Some err) \<Rightarrow>
          if err \<noteq> ErrHelp then Inl err else setFlagsFromEnv w fs (environ st)
      | (fs, None) \<Rightarrow> setFlagsFromEnv w fs (environ st))"

text \<open>\<^verbatim>\<open>syscall.Environ()\<close>: the variables as \<^verbatim>\<open>key=value\<close> strings.\<close>

definition Environ :: "pstate \<Rightarrow> string list" where
  "Environ st = map (\<lambda>kv. fst kv @ ''='' @ snd kv) (environ st)"

text \<open>How \<^verbatim>\<open>StartDesiredVersion\<close> ends.\<close>

datatype outcome =
  Returned                                  \<comment> \<open>the early \<^verbatim>\<open>return\<close> on a configuration error\<close>
  | Halted halt
  | Handoff string "string list" "string list"
      \<comment> \<open>\<^verbatim>\<open>syscall.Exec\<close> replaced the process: the path, \<^verbatim>\<open>argv\<close> and the environment\<close>

text \<open>The last five lines of \<^verbatim>\<open>StartDesiredVersion\<close> (lines 89 to 93).\<close>

definition handoff :: "extern \<Rightarrow> string \<Rightarrow> string list \<Rightarrow> pstate \<Rightarrow> outcome \<times> pstate" where
  "handoff w p args st =
     (let st1 = say (StartingWith p args (Environ st)) st in
      case sysExec w p (p # args) (Environ st1) of
        Some err \<Rightarrow> (Halted Fatal, say (FailedToExecute p err) st1)
      | None \<Rightarrow> (Handoff p (p # args) (Environ st1), st1))"

text \<open>
  \<^verbatim>\<open>StartDesiredVersion\<close>. The parameter \<open>args\<close> is a slice value of its own: the
  resolver's assignment to \<^verbatim>\<open>os.Args\<close> does not change it, and the handoff passes
  \<open>args\<close>, not \<^verbatim>\<open>os.Args\<close>.
\<close>

definition StartDesiredVersion ::
    "extern \<Rightarrow> string \<Rightarrow> string list \<Rightarrow> pstate \<Rightarrow> outcome \<times> pstate" where
  "StartDesiredVersion w binDir args st =
     (case parseConfig w args st of
        Inl err \<Rightarrow> (Returned, st)
      | Inr fs \<Rightarrow>
     (case checkInternalVersion w fs st of
        (Inl h, st1) \<Rightarrow> (Halted h, st1)
      | (Inr ver, st1) \<Rightarrow>
     (let st2 = say (StartingVersion ver) st1 in
      case ver of
        internalV1 \<Rightarrow> handoff w (pathJoin w [binDir, ''1'', ''etcd'']) args st2
      | internalV2 \<Rightarrow> handoff w (pathJoin w [binDir, ''2'', ''etcd'']) args st2
      | internalV2Proxy \<Rightarrow>
          (case lookupValue fs ''data-dir'' of
             Inl h \<Rightarrow> (Halted h, st2)
           | Inr dataDir \<Rightarrow>
               (let st3 = (case osStat w (standbyInfo4 w dataDir) of
                             Some err \<Rightarrow> say MustAddProxy (say DetectedStandbyInfo st2)
                           | None \<Rightarrow> st2)
                in handoff w (pathJoin w [binDir, ''2'', ''etcd''])
                     (args @ [''-proxy=on'']) st3))
      | internalUnknown \<Rightarrow> (Halted Panicked, say UnhandledStartVersion st2))))"

section \<open>Vocabulary of the properties\<close>

text \<open>
  The flag names the starter looks up. \<^verbatim>\<open>parseConfig\<close> registers every flag of
  \<^verbatim>\<open>etcdmain.NewConfig()\<close>; a parsed configuration is one where these are registered.
\<close>

definition lookedUpFlags :: "string list" where
  "lookedUpFlags =
     v2SpecialFlags @
     [''data-dir'', ''discovery'', ''peers'',
      ''ca-file'', ''cert-file'', ''key-file'',
      ''peer-ca-file'', ''peer-cert-file'', ''peer-key-file'']"

definition registered :: "FlagSet \<Rightarrow> bool" where
  "registered fs = list_all (\<lambda>name. fs name \<noteq> None) lookedUpFlags"

text \<open>
  What a candidate reports: the \<^verbatim>\<open>internalVersion\<close> of its \<^verbatim>\<open>/version\<close> response,
  when the request, the read of the body and the parse all succeed. A candidate is
  informative when it reports "1" or "2"; \<open>skipLine\<close> is the line printed for a
  candidate that is not.
\<close>

definition reported :: "extern \<Rightarrow> Client \<Rightarrow> string \<Rightarrow> string option" where
  "reported w c u =
     (case httpGet w c (u @ ''/version'') of
        Inl err \<Rightarrow> None
      | Inr resp \<Rightarrow>
          (case Body resp of
             Inl err \<Rightarrow> None
           | Inr b \<Rightarrow>
               (case unmarshalStringMap w b of
                  Inl err \<Rightarrow> None
                | Inr m \<Rightarrow> Some (case m ''internalVersion'' of None \<Rightarrow> [] | Some v \<Rightarrow> v))))"

definition informative :: "extern \<Rightarrow> Client \<Rightarrow> string \<Rightarrow> bool" where
  "informative w c u = (reported w c u = Some ''1'' \<or> reported w c u = Some ''2'')"

definition skipLine :: "extern \<Rightarrow> Client \<Rightarrow> string \<Rightarrow> diag" where
  "skipLine w c u =
     (case httpGet w c (u @ ''/version'') of
        Inl err \<Rightarrow> FailedToGetVersion u
      | Inr resp \<Rightarrow>
          (case Body resp of
             Inl err \<Rightarrow> FailedToReadBody u
           | Inr b \<Rightarrow>
               (case unmarshalStringMap w b of
                  Inl err \<Rightarrow> FailedToUnmarshalBody b u
                | Inr m \<Rightarrow>
                    UnrecognizedInternalVersion
                      (case m ''internalVersion'' of None \<Rightarrow> [] | Some v \<Rightarrow> v) u)))"

text \<open>
  The candidates that the arm for an absent data directory probes: the client URLs that
  the discovered peers and the static peers give at \<^verbatim>\<open>/etcdURL\<close>.
\<close>

definition absentCandidates ::
    "extern \<Rightarrow> string \<Rightarrow> string \<Rightarrow> TLSInfo \<Rightarrow> pstate \<Rightarrow> string list" where
  "absentCandidates w discovery peerStr ptls st =
     fst (getClientURLsByPeerURLs w
            (fst (getPeersFromDiscoveryURL w discovery) @ getPeersFromPeersFlag w peerStr ptls)
            ptls st)"

section \<open>Example machines\<close>

text \<open>
  A configuration with every looked-up flag registered, empty unless listed.
\<close>

definition config :: "(string \<times> string) list \<Rightarrow> FlagSet" where
  "config kvs =
     (\<lambda>name. if name \<in> set lookedUpFlags
             then Some (case map_of kvs name of None \<Rightarrow> [] | Some v \<Rightarrow> v)
             else None)"

definition ENOENT :: error where
  "ENOENT = Error True ''no such file or directory''"

definition refused :: error where
  "refused = Error False ''connection refused''"

text \<open>The body \<^verbatim>\<open>{"internalVersion":"v"}\<close> and a parser that knows these bodies.\<close>

definition versionBody :: "string \<Rightarrow> string" where
  "versionBody v =
     ''{'' @ [CHR 0x22] @ ''internalVersion'' @ [CHR 0x22] @ '':''
       @ [CHR 0x22] @ v @ [CHR 0x22] @ ''}''"

definition parseVersionBody :: "string \<Rightarrow> error + (string \<rightharpoonup> string)" where
  "parseVersionBody b =
     (if b = versionBody ''1'' then Inr [''internalVersion'' \<mapsto> ''1'']
      else if b = versionBody ''2'' then Inr [''internalVersion'' \<mapsto> ''2'']
      else if b = versionBody ''bogus'' then Inr [''internalVersion'' \<mapsto> ''bogus'']
      else Inl (Error False ''invalid character''))"

text \<open>An HTTP service answering the listed URLs with the listed bodies, no other.\<close>

definition serving :: "(string \<times> string) list \<Rightarrow> Client \<Rightarrow> string \<Rightarrow> error + Response" where
  "serving table c u =
     (case map_of table u of
        None \<Rightarrow> Inl refused
      | Some b \<Rightarrow> Inr \<lparr>Body = Inr b\<rparr>)"

text \<open>
  A machine with an empty disk and no reachable peer, whose flags are
  \<^verbatim>\<open>-data-dir /var/etcd\<close>. Its paths are clean already, so \<^verbatim>\<open>path.Clean\<close> returns them.
\<close>

text \<open>
  The overlay of \<^verbatim>\<open>flags.SetFlagsFromEnv\<close> for the one variable the examples set: the
  flag \<^verbatim>\<open>discovery\<close>, when the command line left it empty, takes the value of
  \<^verbatim>\<open>ETCD_DISCOVERY\<close>.
\<close>

definition fromEnv :: "FlagSet \<Rightarrow> (string \<times> string) list \<Rightarrow> error + FlagSet" where
  "fromEnv fs env =
     Inr (case map_of env ''ETCD_DISCOVERY'' of
            None \<Rightarrow> fs
          | Some v \<Rightarrow> if fs ''discovery'' = Some [] then fs(''discovery'' \<mapsto> v) else fs)"

definition varEtcd :: FlagSet where
  "varEtcd = config [(''data-dir'', ''/var/etcd'')]"

definition offline :: extern where
  "offline =
     \<lparr>pathClean = (\<lambda>p. p),
      flagParse = (\<lambda>args. (varEtcd, None)),
      setFlagsFromEnv = fromEnv,
      tlsScheme = (\<lambda>tls. if KeyFile tls \<noteq> [] \<and> CertFile tls \<noteq> [] then ''https''
                          else ''http''),
      tlsClientConfig = (\<lambda>tls. None),
      detectVersion = (\<lambda>dir. Inr WALNotExist),
      osStat = (\<lambda>p. Some ENOENT),
      decodeStandbyInfo4FromFile = (\<lambda>p. (None, Some ENOENT)),
      decodeLatestSnapshot4FromDir = (\<lambda>dir. (None, None)),
      unmarshalStore4 = (\<lambda>b. Inl (Error False ''unexpected end of JSON input'')),
      decodeLog4FromFile = (\<lambda>p. ([], None)),
      newCommand4 = (\<lambda>name b. Inl (Error False ''unregistered command type'')),
      httpGet = (\<lambda>c u. Inl refused),
      unmarshalStringMap = parseVersionBody,
      urlParse = (\<lambda>u. Inl (Error False ''invalid URL'')),
      urlString = (\<lambda>u. Remainder u @ Path u),
      clientNew = (\<lambda>eps. None),
      keysGet = (\<lambda>eps key. Inl refused),
      sysExec = (\<lambda>p argv env. None)\<rparr>"

definition plain :: TLSInfo where
  "plain = \<lparr>CAFile = [], CertFile = [], KeyFile = []\<rparr>"

definition boot :: pstate where
  "boot = \<lparr>out = [], osArgs = [''etcd-starter'', ''-data-dir'', ''/var/etcd''], environ = []\<rparr>"

text \<open>Three candidates: A refuses, B reports "bogus", C reports "1".\<close>

definition threePeers :: extern where
  "threePeers =
     offline\<lparr>httpGet := serving
       [(''http://b:4001/version'', versionBody ''bogus''),
        (''http://c:4001/version'', versionBody ''1'')]\<rparr>"

text \<open>
  A legacy data directory with a running standby marker and one peer that reports "2".
\<close>

definition marker :: StandbyInfo4 where
  "marker = \<lparr>Running = True, ClientURLs = [''http://c:4001''],
             InitialCluster = ''c=http://c:7001''\<rparr>"

definition standbyOfV2 :: extern where
  "standbyOfV2 =
     offline\<lparr>detectVersion := (\<lambda>dir. Inr WALv0_4),
             osStat := (\<lambda>p. None),
             decodeStandbyInfo4FromFile := (\<lambda>p. (Some marker, None)),
             httpGet := serving [(''http://c:4001/version'', versionBody ''2'')]\<rparr>"

definition bootWithDiscovery :: pstate where
  "bootWithDiscovery = boot\<lparr>environ := [(''ETCD_DISCOVERY'', ''http://disc/t'')]\<rparr>"

definition varEtcdDiscovery :: FlagSet where
  "varEtcdDiscovery = varEtcd(''discovery'' \<mapsto> ''http://disc/t'')"

text \<open>The same marker, and no peer that answers.\<close>

definition standbyAlone :: extern where
  "standbyAlone =
     offline\<lparr>detectVersion := (\<lambda>dir. Inr WALv0_4),
             osStat := (\<lambda>p. None),
             decodeStandbyInfo4FromFile := (\<lambda>p. (Some marker, None))\<rparr>"

text \<open>
  The same marker again: its one candidate \<^verbatim>\<open>c\<close> does not answer, while a member
  \<^verbatim>\<open>d\<close> that the marker does not list reports "2".
\<close>

definition standbyStale :: extern where
  "standbyStale =
     standbyAlone\<lparr>httpGet := serving [(''http://d:4001/version'', versionBody ''2'')]\<rparr>"

text \<open>
  An absent data directory and the static peer \<^verbatim>\<open>p:7001\<close>, which names \<^verbatim>\<open>c\<close> as its
  client URL; \<^verbatim>\<open>c\<close> does not answer, while \<^verbatim>\<open>d\<close>, which nobody names, reports "1".
\<close>

definition varEtcdPeers :: FlagSet where
  "varEtcdPeers = config [(''data-dir'', ''/var/etcd''), (''peers'', ''p:7001'')]"

definition absentStale :: extern where
  "absentStale =
     offline\<lparr>httpGet := serving
       [(''http://p:7001/etcdURL'', ''http://c:4001''),
        (''http://d:4001/version'', versionBody ''1'')]\<rparr>"

text \<open>A current-format proxy directory, with no standby marker file.\<close>

definition proxyDir :: extern where
  "proxyDir = offline\<lparr>detectVersion := (\<lambda>dir. Inr WALv2_0Proxy)\<rparr>"

text \<open>The same directory, with a standby marker file left in it.\<close>

definition proxyDirWithMarker :: extern where
  "proxyDirWithMarker = proxyDir\<lparr>osStat := (\<lambda>p. None)\<rparr>"

text \<open>
  Legacy directories with no standby marker, an empty command log and a snapshot: in
  the first the root of the store has no child \<^verbatim>\<open>_etcd\<close>; in the second it has, with
  the entry \<^verbatim>\<open>next-internal-version\<close> set to "2".
\<close>

definition bareStore :: Store4 where
  "bareStore = \<lparr>Root = Some (Node [] (\<lambda>name. None))\<rparr>"

definition migratedDir :: node where
  "migratedDir = Node [] [''next-internal-version'' \<mapsto> Some (Node ''2'' (\<lambda>name. None))]"

definition migratedRoot :: node where
  "migratedRoot = Node [] [''_etcd'' \<mapsto> Some migratedDir]"

definition migratedStore :: Store4 where
  "migratedStore = \<lparr>Root = Some migratedRoot\<rparr>"

text \<open>A root whose children bind \<^verbatim>\<open>_etcd\<close> to the nil pointer.\<close>

definition nilEtcdRoot :: node where
  "nilEtcdRoot = Node [] [''_etcd'' \<mapsto> None]"

definition nilEtcdStore :: Store4 where
  "nilEtcdStore = \<lparr>Root = Some nilEtcdRoot\<rparr>"

definition legacyDir :: "Store4 \<Rightarrow> extern" where
  "legacyDir store =
     offline\<lparr>detectVersion := (\<lambda>dir. Inr WALv0_4),
             decodeLatestSnapshot4FromDir := (\<lambda>dir. (Some \<lparr>State = ''state''\<rparr>, None)),
             unmarshalStore4 := (\<lambda>b. Inr store)\<rparr>"

text \<open>
  A legacy directory with the running standby marker, no peer that answers, and a
  snapshot whose root has no child \<^verbatim>\<open>_etcd\<close>.
\<close>

definition standbyAloneBare :: extern where
  "standbyAloneBare =
     (legacyDir bareStore)\<lparr>osStat := (\<lambda>p. None),
                            decodeStandbyInfo4FromFile := (\<lambda>p. (Some marker, None))\<rparr>"

text \<open>A data directory the classifier cannot read, and a legacy one with a corrupt marker.\<close>

definition unreadableDir :: extern where
  "unreadableDir = offline\<lparr>detectVersion := (\<lambda>dir. Inl (Error False ''permission denied''))\<rparr>"

definition corruptMarker :: extern where
  "corruptMarker =
     offline\<lparr>detectVersion := (\<lambda>dir. Inr WALv0_4),
             osStat := (\<lambda>p. None),
             decodeStandbyInfo4FromFile :=
               (\<lambda>p. (None, Some (Error False ''unexpected end of JSON input'')))\<rparr>"

section \<open>Static peers\<close>

lemma SplitFrom_comma_length:
  "length (SplitFrom '','' f s) = Suc (count_list s CHR '','')"
  by (induction s arbitrary: f) auto

lemma SplitFrom_not_Nil: "SplitFrom sep f s \<noteq> []"
  by (induction s arbitrary: f) auto

lemma Join_Cons: "ys \<noteq> [] \<Longrightarrow> Join (x # ys) sep = x @ sep @ Join ys sep"
  by (cases ys) auto

lemma Join_SplitFrom_comma: "Join (SplitFrom '','' f s) '','' = f @ s"
  by (induction s arbitrary: f) (auto simp: Join_Cons SplitFrom_not_Nil)

lemma SplitFrom_comma_fields:
  "CHR '','' \<notin> set f \<Longrightarrow> \<forall>x \<in> set (SplitFrom '','' f s). CHR '','' \<notin> set x"
proof (induction s arbitrary: f)
  case Nil
  then show ?case by simp
next
  case (Cons c cs)
  show ?case
  proof (cases "c = CHR '',''")
    case True
    have "\<forall>x \<in> set (SplitFrom '','' [] cs). CHR '','' \<notin> set x"
      by (rule Cons.IH) simp
    with True Cons.prems show ?thesis by simp
  next
    case False
    have "\<forall>x \<in> set (SplitFrom '','' (f @ [c]) cs). CHR '','' \<notin> set x"
      by (rule Cons.IH) (use False Cons.prems in auto)
    with False show ?thesis by simp
  qed
qed

lemma TrimSpace_Nil: "TrimSpace [] = []"
  by (simp add: TrimSpace_def leadingSpace_def trailingSpace_def spaceEncodings_def)

text \<open>
  C9. The fields of the flag are the strings between its commas: there is one more
  field than commas, no field holds a comma, and the fields joined by commas give the
  flag back. \<^verbatim>\<open>getPeersFromPeersFlag\<close> returns, for each field in order, the scheme,
  \<^verbatim>\<open>://\<close> and the trimmed field. So the result is never empty, and for the empty flag
  it is the one peer \<^verbatim>\<open><scheme>://\<close>.
\<close>

theorem getPeersFromPeersFlag_one_peer_per_field:
  "getPeersFromPeersFlag w str tls
     = map (\<lambda>f. tlsScheme w tls @ ''://'' @ TrimSpace f) (Split str '','')
   \<and> length (getPeersFromPeersFlag w str tls) = Suc (count_list str CHR '','')
   \<and> Join (Split str '','') '','' = str
   \<and> (\<forall>f \<in> set (Split str '',''). CHR '','' \<notin> set f)
   \<and> (\<forall>p \<in> set (getPeersFromPeersFlag w str tls). prefix (tlsScheme w tls @ ''://'') p)
   \<and> getPeersFromPeersFlag w [] tls = [tlsScheme w tls @ ''://'']
   \<and> getPeersFromPeersFlag w str tls \<noteq> []"
proof -
  have m: "getPeersFromPeersFlag w str tls
             = map (\<lambda>f. tlsScheme w tls @ ''://'' @ TrimSpace f) (Split str '','')"
    by (simp add: getPeersFromPeersFlag_def trimSplit_def)
  have l: "length (Split str '','') = Suc (count_list str CHR '','')"
    unfolding Split_def by (rule SplitFrom_comma_length)
  have j: "Join (Split str '','') '','' = str"
    unfolding Split_def by (simp add: Join_SplitFrom_comma)
  have c: "\<forall>f \<in> set (Split str '',''). CHR '','' \<notin> set f"
    unfolding Split_def by (rule SplitFrom_comma_fields) simp
  have p: "\<forall>p \<in> set (getPeersFromPeersFlag w str tls). prefix (tlsScheme w tls @ ''://'') p"
    unfolding m by auto
  have e: "getPeersFromPeersFlag w [] tls = [tlsScheme w tls @ ''://'']"
    by (simp add: getPeersFromPeersFlag_def trimSplit_def Split_def TrimSpace_Nil)
  have n: "getPeersFromPeersFlag w str tls \<noteq> []"
    unfolding m Split_def by (simp add: SplitFrom_not_Nil)
  from m l j c p e n show ?thesis by simp
qed

lemma ex_split:
  "Split '' 10.0.0.1:7001 ,10.0.0.2:7001'' '','' = ['' 10.0.0.1:7001 '', ''10.0.0.2:7001'']"
  by (simp add: Split_def)

lemma ex_trim1: "TrimSpace '' 10.0.0.1:7001 '' = ''10.0.0.1:7001''"
  by code_simp

lemma ex_trim2: "TrimSpace ''10.0.0.2:7001'' = ''10.0.0.2:7001''"
  by code_simp

theorem getPeersFromPeersFlag_one_peer_per_field_witness:
  "getPeersFromPeersFlag offline '' 10.0.0.1:7001 ,10.0.0.2:7001'' plain
     = [''http://10.0.0.1:7001'', ''http://10.0.0.2:7001'']
   \<and> Split '' 10.0.0.1:7001 ,10.0.0.2:7001'' '','' = ['' 10.0.0.1:7001 '', ''10.0.0.2:7001'']
   \<and> getPeersFromPeersFlag offline [] plain = [''http://'']"
  using getPeersFromPeersFlag_one_peer_per_field
          [of offline "'' 10.0.0.1:7001 ,10.0.0.2:7001''" plain]
  by (simp add: ex_split ex_trim1 ex_trim2 offline_def plain_def)

section \<open>The explicit override\<close>

lemma anyFlagSet_registered:
  "\<forall>n \<in> set names. fs n \<noteq> None \<Longrightarrow>
   anyFlagSet fs names = Inr (\<exists>n \<in> set names. fs n \<noteq> Some [])"
  by (induction names) (auto simp: lookupValue_def)

text \<open>
  C1. In a parsed configuration (the four v2-only flags are registered) where one of
  them has a non-empty value, \<^verbatim>\<open>checkInternalVersion\<close> returns \<open>internalV2\<close> at once:
  whatever the collaborators are, so whatever the data directory is, and with the
  process state unchanged, so nothing was printed or consulted.
\<close>

theorem v2_flag_resolves_V2:
  assumes "\<forall>n \<in> set v2SpecialFlags. fs n \<noteq> None"
    and "\<exists>n \<in> set v2SpecialFlags. fs n \<noteq> Some []"
  shows "checkInternalVersion w fs st = (Inr internalV2, st)"
  using assms by (simp add: checkInternalVersion_def anyFlagSet_registered)

theorem v2_flag_resolves_V2_witness:
  "config [(''proxy'', ''on'')] ''proxy'' = Some ''on''
   \<and> checkInternalVersion offline (config [(''proxy'', ''on'')]) boot = (Inr internalV2, boot)"
proof -
  have r: "\<forall>n \<in> set v2SpecialFlags. config [(''proxy'', ''on'')] n \<noteq> None"
    by (simp add: config_def lookedUpFlags_def v2SpecialFlags_def)
  have s: "\<exists>n \<in> set v2SpecialFlags. config [(''proxy'', ''on'')] n \<noteq> Some []"
    by (simp add: config_def lookedUpFlags_def v2SpecialFlags_def)
  have p: "config [(''proxy'', ''on'')] ''proxy'' = Some ''on''"
    by (simp add: config_def lookedUpFlags_def v2SpecialFlags_def)
  from v2_flag_resolves_V2 [OF r s] p show ?thesis by simp
qed

section \<open>The peer version probe\<close>

lemma scanVersions_skip:
  "\<not> informative w c x \<Longrightarrow>
   scanVersions w c urls (x # xs) st = scanVersions w c urls xs (say (skipLine w c x) st)"
  by (auto simp: informative_def reported_def skipLine_def split: sum.splits option.splits)

lemma scanVersions_skip_all:
  "\<forall>x \<in> set pre. \<not> informative w c x \<Longrightarrow>
   scanVersions w c urls (pre @ rest) st
     = scanVersions w c urls rest (st\<lparr>out := out st @ map (skipLine w c) pre\<rparr>)"
proof (induction pre arbitrary: st)
  case Nil
  then show ?case by simp
next
  case (Cons x pre)
  then show ?case by (simp add: scanVersions_skip say_def del: scanVersions.simps)
qed

lemma scanVersions_answer:
  "reported w c u = Some iv \<Longrightarrow> iv = ''1'' \<or> iv = ''2'' \<Longrightarrow>
   scanVersions w c urls (u # us) st
     = ((if iv = ''1'' then internalV1 else internalV2, None), st)"
  by (auto simp: reported_def split: sum.splits option.splits)

text \<open>
  C4. With a client at hand, the probe tries the candidates in order. When the
  candidates \<open>pre\<close> before \<open>u\<close> are all uninformative (the request fails, the body
  cannot be read or parsed, or the reported \<^verbatim>\<open>internalVersion\<close> is neither "1" nor "2")
  and \<open>u\<close> reports "1" or "2", the probe returns \<open>internalV1\<close> or \<open>internalV2\<close>
  accordingly with no error, whatever follows \<open>u\<close>; it has printed one line for each
  skipped candidate, in order, and nothing else. The witness is the scan of A (request
  refused), B (reports "bogus") and C (reports "1"), which returns \<open>internalV1\<close>.
\<close>

theorem probe_returns_first_informative:
  assumes "newDefaultClient w tls = Inr c"
    and "\<forall>x \<in> set pre. \<not> informative w c x"
    and "reported w c u = Some iv" and "iv = ''1'' \<or> iv = ''2''"
  shows "checkInternalVersionByClientURLs w (pre @ u # post) tls st
           = ((if iv = ''1'' then internalV1 else internalV2, None),
              st\<lparr>out := out st @ map (skipLine w c) pre\<rparr>)"
  using assms
  by (simp add: checkInternalVersionByClientURLs_def scanVersions_skip_all
        scanVersions_answer del: scanVersions.simps)

lemma threePeers_client: "newDefaultClient threePeers plain = Inr (Client None)"
  by (simp add: newDefaultClient_def threePeers_def offline_def plain_def)

lemma threePeers_a: "httpGet threePeers c ''http://a:4001/version'' = Inl refused"
  by (simp add: threePeers_def offline_def serving_def)

lemma threePeers_b:
  "httpGet threePeers c ''http://b:4001/version'' = Inr \<lparr>Body = Inr (versionBody ''bogus'')\<rparr>"
  by (simp add: threePeers_def offline_def serving_def)

lemma threePeers_c:
  "httpGet threePeers c ''http://c:4001/version'' = Inr \<lparr>Body = Inr (versionBody ''1'')\<rparr>"
  by (simp add: threePeers_def offline_def serving_def)

lemma threePeers_parse: "unmarshalStringMap threePeers = parseVersionBody"
  by (simp add: threePeers_def offline_def)

lemma parse_bogus: "parseVersionBody (versionBody ''bogus'') = Inr [''internalVersion'' \<mapsto> ''bogus'']"
  by (simp add: parseVersionBody_def versionBody_def)

lemma parse_1: "parseVersionBody (versionBody ''1'') = Inr [''internalVersion'' \<mapsto> ''1'']"
  by (simp add: parseVersionBody_def versionBody_def)

lemma parse_2: "parseVersionBody (versionBody ''2'') = Inr [''internalVersion'' \<mapsto> ''2'']"
  by (simp add: parseVersionBody_def versionBody_def)

theorem probe_returns_first_informative_witness:
  "httpGet threePeers (Client None) ''http://a:4001/version'' = Inl refused
   \<and> reported threePeers (Client None) ''http://b:4001'' = Some ''bogus''
   \<and> reported threePeers (Client None) ''http://c:4001'' = Some ''1''
   \<and> checkInternalVersionByClientURLs threePeers
        [''http://a:4001'', ''http://b:4001'', ''http://c:4001''] plain boot
       = ((internalV1, None),
          boot\<lparr>out := [FailedToGetVersion ''http://a:4001'',
                        UnrecognizedInternalVersion ''bogus'' ''http://b:4001'']\<rparr>)"
proof -
  have a: "reported threePeers (Client None) ''http://a:4001'' = None"
    by (simp add: reported_def threePeers_a)
  have b: "reported threePeers (Client None) ''http://b:4001'' = Some ''bogus''"
    by (simp add: reported_def threePeers_b threePeers_parse parse_bogus)
  have c: "reported threePeers (Client None) ''http://c:4001'' = Some ''1''"
    by (simp add: reported_def threePeers_c threePeers_parse parse_1)
  have pre: "\<forall>x \<in> set [''http://a:4001'', ''http://b:4001''].
               \<not> informative threePeers (Client None) x"
    by (simp add: informative_def a b)
  have la: "skipLine threePeers (Client None) ''http://a:4001''
              = FailedToGetVersion ''http://a:4001''"
    by (simp add: skipLine_def threePeers_a)
  have lb: "skipLine threePeers (Client None) ''http://b:4001''
              = UnrecognizedInternalVersion ''bogus'' ''http://b:4001''"
    by (simp add: skipLine_def threePeers_b threePeers_parse parse_bogus)
  have o: "out boot = []"
    by (simp add: boot_def)
  from probe_returns_first_informative [OF threePeers_client pre c, of "[]" boot]
    threePeers_a b c la lb o
  show ?thesis by simp
qed

section \<open>Degradation after a failed probe\<close>

lemma scanVersions_exhausted:
  "\<forall>x \<in> set us. \<not> informative w c x \<Longrightarrow>
   scanVersions w c urls us st
     = ((internalUnknown, Some (failedToGetVersion urls)),
        st\<lparr>out := out st @ map (skipLine w c) us\<rparr>)"
  using scanVersions_skip_all [of us w c urls "[]" st] by simp

lemma sublist_Join: "u \<in> set xs \<Longrightarrow> sublist u (Join xs sep)"
proof (induction xs sep rule: Join.induct)
  case (1 sep)
  then show ?case by simp
next
  case (2 x sep)
  then show ?case by simp
next
  case (3 x y ys sep)
  show ?case
  proof (cases "u = x")
    case True
    then show ?thesis by (simp add: sublist_def) (metis append_Nil)
  next
    case False
    with 3 have "sublist u (Join (y # ys) sep)" by simp
    then obtain ps ss where "Join (y # ys) sep = ps @ u @ ss"
      by (auto simp: sublist_def)
    then have "Join (x # y # ys) sep = (x @ sep @ ps) @ u @ ss" by simp
    then show ?thesis unfolding sublist_def by blast
  qed
qed

lemma failedToGetVersion_names:
  "u \<in> set urls \<Longrightarrow> sublist u (Message (failedToGetVersion urls))"
proof -
  assume "u \<in> set urls"
  then have "sublist u (Join urls '' '')" by (rule sublist_Join)
  then obtain ps ss where "Join urls '' '' = ps @ u @ ss"
    by (auto simp: sublist_def)
  then have "Message (failedToGetVersion urls)
               = (''failed to get version from urls ['' @ ps) @ u @ (ss @ '']'')"
    by (simp add: failedToGetVersion_def)
  then show ?thesis unfolding sublist_def by blast
qed

lemma registered_Some: "registered fs \<Longrightarrow> name \<in> set lookedUpFlags \<Longrightarrow> \<exists>v. fs name = Some v"
  by (auto simp: registered_def list_all_iff)

lemma registered_lookupValue:
  "registered fs \<Longrightarrow> name \<in> set lookedUpFlags \<Longrightarrow> \<exists>v. lookupValue fs name = Inr v"
  by (auto simp: lookupValue_def dest: registered_Some)

lemma registered_clientTLSInfo: "registered fs \<Longrightarrow> \<exists>tls. clientTLSInfo fs = Inr tls"
proof -
  assume r: "registered fs"
  from registered_lookupValue [OF r, of "''ca-file''"]
  obtain a where a: "lookupValue fs ''ca-file'' = Inr a"
    by (auto simp: lookedUpFlags_def)
  from registered_lookupValue [OF r, of "''cert-file''"]
  obtain b where b: "lookupValue fs ''cert-file'' = Inr b"
    by (auto simp: lookedUpFlags_def)
  from registered_lookupValue [OF r, of "''key-file''"]
  obtain c where c: "lookupValue fs ''key-file'' = Inr c"
    by (auto simp: lookedUpFlags_def)
  from a b c show ?thesis by (simp add: clientTLSInfo_def)
qed

lemma registered_peerTLSInfo: "registered fs \<Longrightarrow> \<exists>tls. peerTLSInfo fs = Inr tls"
proof -
  assume r: "registered fs"
  from registered_lookupValue [OF r, of "''peer-ca-file''"]
  obtain a where a: "lookupValue fs ''peer-ca-file'' = Inr a"
    by (auto simp: lookedUpFlags_def)
  from registered_lookupValue [OF r, of "''peer-cert-file''"]
  obtain b where b: "lookupValue fs ''peer-cert-file'' = Inr b"
    by (auto simp: lookedUpFlags_def)
  from registered_lookupValue [OF r, of "''peer-key-file''"]
  obtain c where c: "lookupValue fs ''peer-key-file'' = Inr c"
    by (auto simp: lookedUpFlags_def)
  from a b c show ?thesis by (simp add: peerTLSInfo_def)
qed

lemma probe_exhausted:
  assumes "newDefaultClient w tls = Inr c" and "\<forall>u \<in> set urls. \<not> informative w c u"
  shows "checkInternalVersionByClientURLs w urls tls st
           = ((internalUnknown, Some (failedToGetVersion urls)),
              st\<lparr>out := out st @ map (skipLine w c) urls\<rparr>)"
  using assms
  by (simp add: checkInternalVersionByClientURLs_def scanVersions_exhausted
        del: scanVersions.simps)

text \<open>The client URLs collected from the peers do not depend on what was printed before.\<close>

lemma collectClientURLs_state:
  "fst (collectClientURLs w c us st) = fst (collectClientURLs w c us st')"
proof (induction us arbitrary: st st')
  case Nil
  show ?case by simp
next
  case (Cons u us)
  show ?case
  proof (cases "httpGet w c (u @ ''/etcdURL'')")
    case (Inl e)
    then show ?thesis using Cons.IH by simp
  next
    case (Inr resp)
    show ?thesis
    proof (cases "Body resp")
      case (Inl e)
      with Inr show ?thesis using Cons.IH by simp
    next
      case body: (Inr b)
      from Cons.IH [of st st'] Inr body show ?thesis
        by (simp add: case_prod_beta)
    qed
  qed
qed

lemma absentCandidates_state:
  "absentCandidates w discovery peerStr ptls st = absentCandidates w discovery peerStr ptls st'"
  unfolding absentCandidates_def getClientURLsByPeerURLs_def
  by (cases "newDefaultClient w ptls") (simp_all add: collectClientURLs_state [of _ _ _ st st'])

lemma last_out_say: "last (out (say d st)) = d"
  by (simp add: say_def)

text \<open>The arm for a missing data directory, when the candidates it probes are exhausted.\<close>

lemma notExist_exhausted:
  assumes d: "fs ''discovery'' = Some discovery" and ps: "fs ''peers'' = Some peerStr"
    and pt: "peerTLSInfo fs = Inr ptls"
    and ct: "clientTLSInfo fs = Inr tls" and c: "newDefaultClient w tls = Inr c"
    and x: "\<forall>u \<in> set (absentCandidates w discovery peerStr ptls s0). \<not> informative w c u"
  shows "fst (checkInternalVersion_notExist w fs st) = Inr internalV2
         \<and> last (out (snd (checkInternalVersion_notExist w fs st)))
             = FailedToCheckThroughPeers
                 (failedToGetVersion (absentCandidates w discovery peerStr ptls s0))"
proof -
  obtain dpeers err where g: "getPeersFromDiscoveryURL w discovery = (dpeers, err)"
    by (cases "getPeersFromDiscoveryURL w discovery")
  define st1 where "st1 = (case err of None \<Rightarrow> st
                           | Some e \<Rightarrow> say (FailedToGetPeersFromDiscovery discovery e) st)"
  obtain urls st2 where
    u: "getClientURLsByPeerURLs w (dpeers @ getPeersFromPeersFlag w peerStr ptls) ptls st1
          = (urls, st2)"
    by (cases "getClientURLsByPeerURLs w (dpeers @ getPeersFromPeersFlag w peerStr ptls)
                 ptls st1")
  from g u have "absentCandidates w discovery peerStr ptls st1 = urls"
    by (simp add: absentCandidates_def)
  then have e: "absentCandidates w discovery peerStr ptls s0 = urls"
    using absentCandidates_state [of w discovery peerStr ptls s0 st1] by simp
  with x have "\<forall>u \<in> set urls. \<not> informative w c u" by simp
  from probe_exhausted [OF c this, of st2]
  have p: "checkInternalVersionByClientURLs w urls tls st2
             = ((internalUnknown, Some (failedToGetVersion urls)),
                st2\<lparr>out := out st2 @ map (skipLine w c) urls\<rparr>)" .
  show ?thesis
    by (simp add: checkInternalVersion_notExist_def lookupValue_def d ps pt ct g u p e
          st1_def [symmetric] last_out_say)
qed

text \<open>The arm for a legacy directory with a running standby marker, likewise.\<close>

lemma standby_exhausted:
  assumes m: "decodeStandbyInfo4FromFile w (standbyInfo4 w dataDir) = (Some si, None)"
    and run: "Running si"
    and ct: "clientTLSInfo fs = Inr tls" and c: "newDefaultClient w tls = Inr c"
    and x: "\<forall>u \<in> set (ClientURLs si). \<not> informative w c u"
  shows "fst (checkInternalVersion_v0_4 w fs dataDir st) = Inr internalV1
         \<and> last (out (snd (checkInternalVersion_v0_4 w fs dataDir st)))
             = FailedToCheckThroughPeers (failedToGetVersion (ClientURLs si))"
  by (simp add: checkInternalVersion_v0_4_def checkInternalVersion_standby_def m run ct
        probe_exhausted [OF c x] last_out_say)

lemma no_v2_flag:
  "\<forall>n \<in> set v2SpecialFlags. fs n = Some [] \<Longrightarrow> anyFlagSet fs v2SpecialFlags = Inr False"
  by (subst anyFlagSet_registered) auto

lemma checkInternalVersion_classified:
  assumes "\<forall>n \<in> set v2SpecialFlags. fs n = Some []"
    and "fs ''data-dir'' = Some dataDir" and "dataDir \<noteq> []"
    and "detectVersion w dataDir = Inr dataver"
  shows "checkInternalVersion w fs st =
           (let st1 = say (DetectedVersion dataver dataDir) st in
            case dataver of
              WALv2_0 \<Rightarrow> (Inr internalV2, st1)
            | WALv2_0_1 \<Rightarrow> (Inr internalV2, st1)
            | WALv2_0Proxy \<Rightarrow> (Inr internalV2Proxy, st1)
            | WALv0_4 \<Rightarrow> checkInternalVersion_v0_4 w fs dataDir st1
            | WALNotExist \<Rightarrow> checkInternalVersion_notExist w fs st1
            | WALUnknown \<Rightarrow> (Inr internalV2, say (UnrecognizedContents dataDir) st1)
            | WALOther x \<Rightarrow> (Inl Panicked, say (UnhandledEtcdVersion dataDir) st1))"
  using assms by (simp add: checkInternalVersion_def no_v2_flag lookupValue_def)

text \<open>
  C6. When the client was built and no candidate of the list is informative, the probe
  returns \<open>internalUnknown\<close> with the error "failed to get version from urls [...]",
  and every URL of the list occurs in that message. The resolver then degrades by
  branch. For a configuration with a data directory and no v2-only flag, whose client
  was built: if the directory is absent and the candidates that arm probes (the client
  URLs its peers gave) are all uninformative, the resolver returns \<open>internalV2\<close>; if
  it is a legacy directory with a running standby marker and the marker's client URLs
  are all uninformative, the resolver returns \<open>internalV1\<close>. In both cases the last
  line printed is the probe's error over exactly those candidates. Nothing is assumed
  of URLs that were not probed.
\<close>

theorem exhausted_probe_degrades_by_branch:
  "(newDefaultClient w tls = Inr c \<and> (\<forall>u \<in> set urls. \<not> informative w c u)
      \<longrightarrow> fst (checkInternalVersionByClientURLs w urls tls st)
            = (internalUnknown, Some (failedToGetVersion urls))
          \<and> (\<forall>u \<in> set urls. sublist u (Message (failedToGetVersion urls))))
   \<and> ((\<forall>n \<in> set v2SpecialFlags. fs n = Some [])
        \<and> fs ''data-dir'' = Some dataDir \<and> dataDir \<noteq> []
        \<and> clientTLSInfo fs = Inr tls \<and> newDefaultClient w tls = Inr c
      \<longrightarrow> (detectVersion w dataDir = Inr WALNotExist
             \<and> fs ''discovery'' = Some discovery \<and> fs ''peers'' = Some peerStr
             \<and> peerTLSInfo fs = Inr ptls
             \<and> (\<forall>u \<in> set (absentCandidates w discovery peerStr ptls st).
                   \<not> informative w c u)
             \<longrightarrow> fst (checkInternalVersion w fs st) = Inr internalV2
                 \<and> last (out (snd (checkInternalVersion w fs st)))
                     = FailedToCheckThroughPeers
                         (failedToGetVersion (absentCandidates w discovery peerStr ptls st)))
          \<and> (detectVersion w dataDir = Inr WALv0_4
               \<and> decodeStandbyInfo4FromFile w (standbyInfo4 w dataDir) = (Some si, None)
               \<and> Running si
               \<and> (\<forall>u \<in> set (ClientURLs si). \<not> informative w c u)
             \<longrightarrow> fst (checkInternalVersion w fs st) = Inr internalV1
                 \<and> last (out (snd (checkInternalVersion w fs st)))
                     = FailedToCheckThroughPeers (failedToGetVersion (ClientURLs si))))"
proof -
  have p1: "fst (checkInternalVersionByClientURLs w urls tls st)
              = (internalUnknown, Some (failedToGetVersion urls))"
    if "newDefaultClient w tls = Inr c" and "\<forall>u \<in> set urls. \<not> informative w c u"
    using that by (simp add: probe_exhausted)
  have p2: "\<forall>u \<in> set urls. sublist u (Message (failedToGetVersion urls))"
    by (simp add: failedToGetVersion_names)
  have p3: "fst (checkInternalVersion w fs st) = Inr internalV2
            \<and> last (out (snd (checkInternalVersion w fs st)))
                = FailedToCheckThroughPeers
                    (failedToGetVersion (absentCandidates w discovery peerStr ptls st))"
    if "\<forall>n \<in> set v2SpecialFlags. fs n = Some []"
      and "fs ''data-dir'' = Some dataDir" and "dataDir \<noteq> []"
      and "clientTLSInfo fs = Inr tls" and "newDefaultClient w tls = Inr c"
      and "detectVersion w dataDir = Inr WALNotExist"
      and "fs ''discovery'' = Some discovery" and "fs ''peers'' = Some peerStr"
      and "peerTLSInfo fs = Inr ptls"
      and "\<forall>u \<in> set (absentCandidates w discovery peerStr ptls st). \<not> informative w c u"
    using notExist_exhausted [OF that(7) that(8) that(9) that(4) that(5) that(10)]
    by (simp add: checkInternalVersion_classified [OF that(1) that(2) that(3) that(6)])
  have p4: "fst (checkInternalVersion w fs st) = Inr internalV1
            \<and> last (out (snd (checkInternalVersion w fs st)))
                = FailedToCheckThroughPeers (failedToGetVersion (ClientURLs si))"
    if "\<forall>n \<in> set v2SpecialFlags. fs n = Some []"
      and "fs ''data-dir'' = Some dataDir" and "dataDir \<noteq> []"
      and "clientTLSInfo fs = Inr tls" and "newDefaultClient w tls = Inr c"
      and "detectVersion w dataDir = Inr WALv0_4"
      and "decodeStandbyInfo4FromFile w (standbyInfo4 w dataDir) = (Some si, None)"
      and "Running si"
      and "\<forall>u \<in> set (ClientURLs si). \<not> informative w c u"
    using standby_exhausted [OF that(7) that(8) that(4) that(5) that(9)]
    by (simp add: checkInternalVersion_classified [OF that(1) that(2) that(3) that(6)])
  from p1 p2 p3 p4 show ?thesis by blast
qed

lemma registered_config: "registered (config kvs)"
  by (simp add: registered_def config_def lookedUpFlags_def v2SpecialFlags_def)

lemma varEtcd_no_v2_flag: "\<forall>n \<in> set v2SpecialFlags. varEtcd n = Some []"
  by (simp add: varEtcd_def config_def lookedUpFlags_def v2SpecialFlags_def)

lemma varEtcd_data_dir: "varEtcd ''data-dir'' = Some ''/var/etcd''"
  by (simp add: varEtcd_def config_def lookedUpFlags_def v2SpecialFlags_def)

lemma varEtcd_clientTLSInfo: "clientTLSInfo varEtcd = Inr plain"
  by (simp add: clientTLSInfo_def lookupValue_def varEtcd_def config_def lookedUpFlags_def
        v2SpecialFlags_def plain_def)

lemma offline_uninformative: "\<not> informative offline c u"
  by (simp add: informative_def reported_def offline_def)

lemma ex_trim3: "TrimSpace ''p:7001'' = ''p:7001''"
  by code_simp

theorem exhausted_probe_degrades_by_branch_witness:
  "fst (checkInternalVersionByClientURLs offline [''http://a:4001'', ''http://b:4001''] plain boot)
     = (internalUnknown,
        Some (Error False ''failed to get version from urls [http://a:4001 http://b:4001]''))
   \<and> sublist ''http://b:4001''
        ''failed to get version from urls [http://a:4001 http://b:4001]''
   \<and> detectVersion absentStale ''/var/etcd'' = Inr WALNotExist
   \<and> absentCandidates absentStale [] ''p:7001'' plain boot = [''http://c:4001'']
   \<and> reported absentStale (Client None) ''http://c:4001'' = None
   \<and> reported absentStale (Client None) ''http://d:4001'' = Some ''1''
   \<and> fst (checkInternalVersion absentStale varEtcdPeers boot) = Inr internalV2
   \<and> detectVersion standbyStale ''/var/etcd'' = Inr WALv0_4
   \<and> ClientURLs marker = [''http://c:4001'']
   \<and> reported standbyStale (Client None) ''http://c:4001'' = None
   \<and> reported standbyStale (Client None) ''http://d:4001'' = Some ''2''
   \<and> fst (checkInternalVersion standbyStale varEtcd boot) = Inr internalV1"
proof -
  let ?urls = "[''http://a:4001'', ''http://b:4001'']"
  have c: "newDefaultClient offline plain = Inr (Client None)"
    by (simp add: newDefaultClient_def offline_def plain_def)
  have m: "Message (failedToGetVersion ?urls)
             = ''failed to get version from urls [http://a:4001 http://b:4001]''"
    by (simp add: failedToGetVersion_def)
  have f: "failedToGetVersion ?urls
             = Error False ''failed to get version from urls [http://a:4001 http://b:4001]''"
    by (simp add: failedToGetVersion_def)
  note t1 = exhausted_probe_degrades_by_branch
              [where w = offline and tls = plain and c = "Client None" and urls = ?urls
                 and st = boot]
  from t1 c offline_uninformative
  have p1: "fst (checkInternalVersionByClientURLs offline ?urls plain boot)
              = (internalUnknown, Some (failedToGetVersion ?urls))"
    and p2: "\<forall>u \<in> set ?urls. sublist u (Message (failedToGetVersion ?urls))"
    by blast+
  from p2 have p3: "sublist ''http://b:4001'' (Message (failedToGetVersion ?urls))"
    by simp
  \<comment> \<open>the absent directory\<close>
  have an: "\<forall>n \<in> set v2SpecialFlags. varEtcdPeers n = Some []"
    by (simp add: varEtcdPeers_def config_def lookedUpFlags_def v2SpecialFlags_def)
  have ad: "varEtcdPeers ''data-dir'' = Some ''/var/etcd''"
    and ai: "varEtcdPeers ''discovery'' = Some []"
    and ap: "varEtcdPeers ''peers'' = Some ''p:7001''"
    by (simp_all add: varEtcdPeers_def config_def lookedUpFlags_def v2SpecialFlags_def)
  have act: "clientTLSInfo varEtcdPeers = Inr plain"
    by (simp add: clientTLSInfo_def lookupValue_def varEtcdPeers_def config_def
          lookedUpFlags_def v2SpecialFlags_def plain_def)
  have apt: "peerTLSInfo varEtcdPeers = Inr plain"
    by (simp add: peerTLSInfo_def lookupValue_def varEtcdPeers_def config_def
          lookedUpFlags_def v2SpecialFlags_def plain_def)
  have ac: "newDefaultClient absentStale plain = Inr (Client None)"
    by (simp add: newDefaultClient_def absentStale_def offline_def plain_def)
  have adv: "detectVersion absentStale ''/var/etcd'' = Inr WALNotExist"
    by (simp add: absentStale_def offline_def)
  have asc: "tlsScheme absentStale plain = ''http''"
    by (simp add: absentStale_def offline_def plain_def)
  have ag: "httpGet absentStale (Client None) ''http://p:7001/etcdURL''
              = Inr \<lparr>Body = Inr ''http://c:4001''\<rparr>"
    by (simp add: absentStale_def serving_def)
  have acand: "absentCandidates absentStale [] ''p:7001'' plain boot = [''http://c:4001'']"
    by (simp add: absentCandidates_def getPeersFromDiscoveryURL_def getPeersFromPeersFlag_def
          trimSplit_def Split_def ex_trim3 asc getClientURLsByPeerURLs_def ac ag)
  have apj: "unmarshalStringMap absentStale = parseVersionBody"
    by (simp add: absentStale_def offline_def)
  have arc: "reported absentStale (Client None) ''http://c:4001'' = None"
    by (simp add: reported_def absentStale_def serving_def refused_def)
  have agd: "httpGet absentStale (Client None) ''http://d:4001/version''
               = Inr \<lparr>Body = Inr (versionBody ''1'')\<rparr>"
    by (simp add: absentStale_def serving_def)
  have ard: "reported absentStale (Client None) ''http://d:4001'' = Some ''1''"
    by (simp add: reported_def agd apj parse_1)
  have ax: "\<forall>u \<in> set (absentCandidates absentStale [] ''p:7001'' plain boot).
              \<not> informative absentStale (Client None) u"
    by (simp add: acand informative_def arc)
  have an0: "''/var/etcd'' \<noteq> []"
    by simp
  note t2 = exhausted_probe_degrades_by_branch
              [where w = absentStale and tls = plain and c = "Client None" and st = boot
                 and fs = varEtcdPeers and dataDir = "''/var/etcd''" and discovery = "[]"
                 and peerStr = "''p:7001''" and ptls = plain]
  from t2 an ad an0 act ac adv ai ap apt ax
  have p4: "fst (checkInternalVersion absentStale varEtcdPeers boot) = Inr internalV2"
    by blast
  \<comment> \<open>the running standby marker\<close>
  have sc: "newDefaultClient standbyStale plain = Inr (Client None)"
    by (simp add: newDefaultClient_def standbyStale_def standbyAlone_def offline_def
          plain_def)
  have sdv: "detectVersion standbyStale ''/var/etcd'' = Inr WALv0_4"
    by (simp add: standbyStale_def standbyAlone_def)
  have sm: "decodeStandbyInfo4FromFile standbyStale (standbyInfo4 standbyStale ''/var/etcd'')
              = (Some marker, None)"
    by (simp add: standbyStale_def standbyAlone_def)
  have sr: "Running marker" and su: "ClientURLs marker = [''http://c:4001'']"
    by (simp_all add: marker_def)
  have spj: "unmarshalStringMap standbyStale = parseVersionBody"
    by (simp add: standbyStale_def standbyAlone_def offline_def)
  have src: "reported standbyStale (Client None) ''http://c:4001'' = None"
    by (simp add: reported_def standbyStale_def serving_def refused_def)
  have sgd: "httpGet standbyStale (Client None) ''http://d:4001/version''
               = Inr \<lparr>Body = Inr (versionBody ''2'')\<rparr>"
    by (simp add: standbyStale_def serving_def)
  have srd: "reported standbyStale (Client None) ''http://d:4001'' = Some ''2''"
    by (simp add: reported_def sgd spj parse_2)
  have sx: "\<forall>u \<in> set (ClientURLs marker). \<not> informative standbyStale (Client None) u"
    by (simp add: su informative_def src)
  note t3 = exhausted_probe_degrades_by_branch
              [where w = standbyStale and tls = plain and c = "Client None" and st = boot
                 and fs = varEtcd and dataDir = "''/var/etcd''" and si = marker]
  from t3 varEtcd_no_v2_flag varEtcd_data_dir an0 varEtcd_clientTLSInfo sc sdv sm sr sx
  have p5: "fst (checkInternalVersion standbyStale varEtcd boot) = Inr internalV1"
    by blast
  from p1 p3 p4 p5 adv acand arc ard sdv su src srd show ?thesis
    unfolding f m by simp
qed

section \<open>A new node with no peers configured\<close>

lemma registered_anyFlagSet:
  "registered fs \<Longrightarrow> \<exists>b. anyFlagSet fs v2SpecialFlags = Inr b"
proof -
  assume "registered fs"
  then have "\<forall>n \<in> set v2SpecialFlags. fs n \<noteq> None"
    by (auto simp: registered_def list_all_iff lookedUpFlags_def)
  then show ?thesis by (simp add: anyFlagSet_registered)
qed

lemma probe_of_no_candidate:
  "\<exists>e. checkInternalVersionByClientURLs w [] tls st = ((internalUnknown, Some e), st)"
  by (cases "newDefaultClient w tls") (simp_all add: checkInternalVersionByClientURLs_def)

lemma hostless_peer_gives_no_URL:
  assumes "\<forall>c. isl (httpGet w c (tlsScheme w tls @ '':///etcdURL''))"
  shows "fst (getClientURLsByPeerURLs w [tlsScheme w tls @ ''://''] tls st) = []"
proof (cases "newDefaultClient w tls")
  case (Inl e)
  then show ?thesis by (simp add: getClientURLsByPeerURLs_def)
next
  case (Inr c)
  from assms have "isl (httpGet w c (tlsScheme w tls @ '':///etcdURL''))" by simp
  then obtain e where "httpGet w c (tlsScheme w tls @ '':///etcdURL'') = Inl e"
    by (cases "httpGet w c (tlsScheme w tls @ '':///etcdURL'')") auto
  with Inr show ?thesis by (simp add: getClientURLsByPeerURLs_def)
qed

lemma notExist_no_peers:
  assumes r: "registered fs"
    and d: "fs ''discovery'' = Some []" and p: "fs ''peers'' = Some []"
    and t: "peerTLSInfo fs = Inr ptls"
    and h: "\<forall>c. isl (httpGet w c (tlsScheme w ptls @ '':///etcdURL''))"
  shows "fst (checkInternalVersion_notExist w fs st) = Inr internalV2"
proof -
  from registered_clientTLSInfo [OF r] obtain ct where ct: "clientTLSInfo fs = Inr ct" ..
  have pp: "getPeersFromPeersFlag w [] ptls = [tlsScheme w ptls @ ''://'']"
    by (simp add: getPeersFromPeersFlag_def trimSplit_def Split_def TrimSpace_Nil)
  obtain urls st2 where
    u: "getClientURLsByPeerURLs w [tlsScheme w ptls @ ''://''] ptls st = (urls, st2)"
    by (cases "getClientURLsByPeerURLs w [tlsScheme w ptls @ ''://''] ptls st")
  from hostless_peer_gives_no_URL [OF h, of st] u have e: "urls = []" by simp
  from probe_of_no_candidate [of w ct st2]
  obtain err where
    q: "checkInternalVersionByClientURLs w [] ct st2 = ((internalUnknown, Some err), st2)"
    by blast
  show ?thesis
    using u
    by (simp add: checkInternalVersion_notExist_def lookupValue_def d p t ct pp
          getPeersFromDiscoveryURL_def e q)
qed

text \<open>
  C7. A parsed configuration whose data directory is classified as absent, with an
  empty discovery URL and an empty peers flag, resolves to \<open>internalV2\<close>. The static
  peer list of the empty flag is the one peer \<^verbatim>\<open><scheme>://\<close>, so the resolver does ask
  for \<^verbatim>\<open><scheme>:///etcdURL\<close>; the hypothesis is that a request to a URL with no host
  fails, as Go's HTTP transport makes it.
\<close>

theorem absent_dir_no_peers_resolves_V2:
  assumes "registered fs"
    and "fs ''data-dir'' = Some dataDir"
    and "detectVersion w dataDir = Inr WALNotExist"
    and "fs ''discovery'' = Some []" and "fs ''peers'' = Some []"
    and "peerTLSInfo fs = Inr ptls"
    and "\<forall>c. isl (httpGet w c (tlsScheme w ptls @ '':///etcdURL''))"
  shows "fst (checkInternalVersion w fs st) = Inr internalV2"
proof -
  from registered_anyFlagSet [OF assms(1)]
  obtain b where b: "anyFlagSet fs v2SpecialFlags = Inr b" ..
  show ?thesis
  proof (cases "b \<or> dataDir = []")
    case True
    with b assms(2) show ?thesis
      by (cases b) (auto simp: checkInternalVersion_def lookupValue_def)
  next
    case False
    with b assms(2,3) show ?thesis
      by (simp add: checkInternalVersion_def lookupValue_def
            notExist_no_peers [OF assms(1) assms(4) assms(5) assms(6) assms(7)])
  qed
qed

theorem absent_dir_no_peers_resolves_V2_witness:
  "varEtcd ''data-dir'' = Some ''/var/etcd''
   \<and> detectVersion offline ''/var/etcd'' = Inr WALNotExist
   \<and> varEtcd ''discovery'' = Some [] \<and> varEtcd ''peers'' = Some []
   \<and> httpGet offline (Client None) ''http:///etcdURL'' = Inl refused
   \<and> fst (checkInternalVersion offline varEtcd boot) = Inr internalV2"
proof -
  have r: "registered varEtcd"
    by (simp add: varEtcd_def registered_config)
  have d: "detectVersion offline ''/var/etcd'' = Inr WALNotExist"
    by (simp add: offline_def)
  have di: "varEtcd ''discovery'' = Some []"
    by (simp add: varEtcd_def config_def lookedUpFlags_def v2SpecialFlags_def)
  have pe: "varEtcd ''peers'' = Some []"
    by (simp add: varEtcd_def config_def lookedUpFlags_def v2SpecialFlags_def)
  have t: "peerTLSInfo varEtcd = Inr plain"
    by (simp add: peerTLSInfo_def lookupValue_def varEtcd_def config_def lookedUpFlags_def
          v2SpecialFlags_def plain_def)
  have h: "\<forall>c. isl (httpGet offline c (tlsScheme offline plain @ '':///etcdURL''))"
    by (simp add: offline_def)
  have g: "httpGet offline (Client None) ''http:///etcdURL'' = Inl refused"
    by (simp add: offline_def)
  from absent_dir_no_peers_resolves_V2 [OF r varEtcd_data_dir d di pe t h, of boot]
    varEtcd_data_dir d di pe g
  show ?thesis by simp
qed

section \<open>The legacy-store migration inspector\<close>

text \<open>
  C10, as amended. For a snapshot that decodes to a store with a root, the inspector
  stops on the nil dereference of \<^verbatim>\<open>dir.Children\<close> exactly when the root's children
  hold no node under \<^verbatim>\<open>_etcd\<close>, that is when the key is missing or bound to the nil
  pointer: with \<^verbatim>\<open>_etcd\<close> bound to a node that panic cannot happen, without it it does.
\<close>

theorem etcd_child_makes_dir_access_safe:
  assumes "decodeLatestSnapshot4FromDir w (snapDir4 w dataDir) = (Some snap4, None)"
    and "unmarshalStore4 w (State snap4) = Inr store"
    and "Root store = Some root"
  shows "(checkInternalVersionByDataDir4 w dataDir \<noteq> Inl (NilDereference ''dir''))
           = (\<exists>dir. Children root ''_etcd'' = Some (Some dir))"
  using assms
  by (auto simp: checkInternalVersionByDataDir4_def checkSnapshot4_def lookupChild_def
        split: option.splits)

lemma legacyDir_snapshot:
  "decodeLatestSnapshot4FromDir (legacyDir store) p = (Some \<lparr>State = ''state''\<rparr>, None)"
  by (simp add: legacyDir_def)

lemma legacyDir_store: "unmarshalStore4 (legacyDir store) b = Inr store"
  by (simp add: legacyDir_def)

theorem etcd_child_makes_dir_access_safe_witness:
  "Children migratedRoot ''_etcd'' = Some (Some migratedDir)
   \<and> checkInternalVersionByDataDir4 (legacyDir migratedStore) ''/var/etcd''
       \<noteq> Inl (NilDereference ''dir'')"
proof -
  have r: "Root migratedStore = Some migratedRoot"
    by (simp add: migratedStore_def)
  have c: "Children migratedRoot ''_etcd'' = Some (Some migratedDir)"
    by (simp add: migratedRoot_def)
  from etcd_child_makes_dir_access_safe [OF legacyDir_snapshot legacyDir_store r] c
  show ?thesis by simp
qed

text \<open>
  C10 as stated fails where the key is there and bound to nil: the root's children
  contain an entry \<^verbatim>\<open>_etcd\<close>, and the inspector still stops on the nil dereference of
  \<^verbatim>\<open>dir.Children\<close>.
\<close>

theorem etcd_entry_bound_to_nil_counterexample:
  "decodeLatestSnapshot4FromDir (legacyDir nilEtcdStore)
       (snapDir4 (legacyDir nilEtcdStore) ''/var/etcd'') = (Some \<lparr>State = ''state''\<rparr>, None)
   \<and> unmarshalStore4 (legacyDir nilEtcdStore) ''state'' = Inr nilEtcdStore
   \<and> Root nilEtcdStore = Some nilEtcdRoot
   \<and> Children nilEtcdRoot ''_etcd'' = Some None
   \<and> checkInternalVersionByDataDir4 (legacyDir nilEtcdStore) ''/var/etcd''
       = Inl (NilDereference ''dir'')"
proof -
  have r: "Root nilEtcdStore = Some nilEtcdRoot"
    by (simp add: nilEtcdStore_def)
  have c: "Children nilEtcdRoot ''_etcd'' = Some None"
    by (simp add: nilEtcdRoot_def)
  have i: "checkInternalVersionByDataDir4 (legacyDir nilEtcdStore) ''/var/etcd''
             = Inl (NilDereference ''dir'')"
    by (simp add: checkInternalVersionByDataDir4_def legacyDir_snapshot checkSnapshot4_def
          legacyDir_store r lookupChild_def c)
  from legacyDir_snapshot legacyDir_store r c i show ?thesis by simp
qed

text \<open>
  C5, at a legacy directory with no standby marker, an empty command log and a snapshot
  whose root has no child \<^verbatim>\<open>_etcd\<close>: neither the snapshot nor the log holds the
  migration entry, and the resolver does not answer \<open>internalV1\<close>; the process stops on
  the nil dereference of \<^verbatim>\<open>dir.Children\<close>.
\<close>

theorem inspector_panics_on_snapshot_without_etcd_dir:
  "decodeStandbyInfo4FromFile (legacyDir bareStore)
       (standbyInfo4 (legacyDir bareStore) ''/var/etcd'') = (None, Some ENOENT)
   \<and> Root bareStore = Some (Node [] (\<lambda>name. None))
   \<and> decodeLog4FromFile (legacyDir bareStore) (logFile4 (legacyDir bareStore) ''/var/etcd'')
       = ([], None)
   \<and> checkInternalVersionByDataDir4 (legacyDir bareStore) ''/var/etcd''
       = Inl (NilDereference ''dir'')
   \<and> fst (checkInternalVersion (legacyDir bareStore) varEtcd boot)
       = Inl (NilDereference ''dir'')
   \<and> fst (StartDesiredVersion (legacyDir bareStore) ''/opt/etcd''
             [''-data-dir'', ''/var/etcd''] boot)
       = Halted (NilDereference ''dir'')"
proof -
  have d: "detectVersion (legacyDir bareStore) ''/var/etcd'' = Inr WALv0_4"
    by (simp add: legacyDir_def)
  have m: "decodeStandbyInfo4FromFile (legacyDir bareStore) p = (None, Some ENOENT)" for p
    by (simp add: legacyDir_def offline_def)
  have l: "decodeLog4FromFile (legacyDir bareStore) p = ([], None)" for p
    by (simp add: legacyDir_def offline_def)
  have r: "Root bareStore = Some (Node [] (\<lambda>name. None))"
    by (simp add: bareStore_def)
  have i: "checkInternalVersionByDataDir4 (legacyDir bareStore) ''/var/etcd''
             = Inl (NilDereference ''dir'')"
    by (simp add: checkInternalVersionByDataDir4_def legacyDir_snapshot checkSnapshot4_def
          legacyDir_store r lookupChild_def)
  have c: "fst (checkInternalVersion (legacyDir bareStore) varEtcd boot)
             = Inl (NilDereference ''dir'')"
    by (simp add: checkInternalVersion_classified [OF varEtcd_no_v2_flag varEtcd_data_dir _ d]
          checkInternalVersion_v0_4_def m ENOENT_def checkInternalVersion_standby_def i)
  have p: "parseConfig (legacyDir bareStore) args boot = Inr varEtcd" for args
    by (simp add: parseConfig_def fromEnv_def boot_def legacyDir_def offline_def)
  obtain st1 where
    e: "checkInternalVersion (legacyDir bareStore) varEtcd boot
          = (Inl (NilDereference ''dir''), st1)"
    using c by (cases "checkInternalVersion (legacyDir bareStore) varEtcd boot") auto
  have s: "fst (StartDesiredVersion (legacyDir bareStore) ''/opt/etcd''
             [''-data-dir'', ''/var/etcd''] boot) = Halted (NilDereference ''dir'')"
    by (simp add: StartDesiredVersion_def p e)
  from m l r i c s show ?thesis by simp
qed

section \<open>The handoff\<close>

lemma Environ_say: "Environ (say d st) = Environ st"
  by (simp add: Environ_def say_def)

lemma handoff_succeeds:
  "sysExec w p (p # args) (Environ st) = None \<Longrightarrow>
   fst (handoff w p args st) = Handoff p (p # args) (Environ st)"
  by (simp add: handoff_def Environ_say)

text \<open>
  Whatever the resolver did to \<^verbatim>\<open>os.Args\<close>, the argument vector of a handoff is the
  path, the arguments \<^verbatim>\<open>StartDesiredVersion\<close> was called with and, at most, the proxy flag.
\<close>

lemma handoff_argv:
  assumes "fst (StartDesiredVersion w binDir args st) = Handoff p argv envv"
  shows "argv = p # args \<or> argv = p # args @ [''-proxy=on'']"
proof -
  have h: "fst (handoff w q xs s) = Handoff p argv envv \<Longrightarrow> argv = p # xs" for q xs s
    by (auto simp: handoff_def Let_def split: option.splits)
  from assms show ?thesis
    by (auto simp: StartDesiredVersion_def Let_def
          split: sum.splits prod.splits version.splits dest!: h)
qed

text \<open>
  C3, as amended. When the configuration parses, sets no v2-only flag and names a data
  directory that classifies as the current-format proxy variant, the resolver answers
  \<open>internalV2Proxy\<close>, and the process handed over to (when \<^verbatim>\<open>syscall.Exec\<close> succeeds) is
  \<^verbatim>\<open><binDir>/2/etcd\<close> with the original arguments followed by \<^verbatim>\<open>-proxy=on\<close>: for every
  file system, so whether or not a standby marker file exists.
\<close>

theorem proxy_dir_always_gets_proxy_flag:
  assumes "parseConfig w args st = Inr fs"
    and "\<forall>n \<in> set v2SpecialFlags. fs n = Some []"
    and "fs ''data-dir'' = Some dataDir" and "dataDir \<noteq> []"
    and "detectVersion w dataDir = Inr WALv2_0Proxy"
    and "sysExec w (pathJoin w [binDir, ''2'', ''etcd''])
           (pathJoin w [binDir, ''2'', ''etcd''] # args @ [''-proxy=on'']) (Environ st) = None"
  shows "fst (checkInternalVersion w fs st) = Inr internalV2Proxy
         \<and> fst (StartDesiredVersion w binDir args st)
             = Handoff (pathJoin w [binDir, ''2'', ''etcd''])
                 (pathJoin w [binDir, ''2'', ''etcd''] # args @ [''-proxy=on''])
                 (Environ st)"
proof -
  have c: "checkInternalVersion w fs st
             = (Inr internalV2Proxy, say (DetectedVersion WALv2_0Proxy dataDir) st)"
    by (simp add: checkInternalVersion_classified [OF assms(2) assms(3) assms(4) assms(5)])
  have h: "fst (handoff w (pathJoin w [binDir, ''2'', ''etcd'']) (args @ [''-proxy=on'']) s)
             = Handoff (pathJoin w [binDir, ''2'', ''etcd''])
                 (pathJoin w [binDir, ''2'', ''etcd''] # args @ [''-proxy=on''])
                 (Environ st)"
    if "Environ s = Environ st" for s
    using that assms(6) handoff_succeeds [of w _ "args @ [''-proxy=on'']" s] by simp
  have e: "Environ (case osStat w (standbyInfo4 w dataDir) of
                       None \<Rightarrow> s
                     | Some err \<Rightarrow> say MustAddProxy (say DetectedStandbyInfo s))
             = Environ s" for s
    by (simp add: Environ_say split: option.splits)
  have s: "fst (StartDesiredVersion w binDir args st)
             = Handoff (pathJoin w [binDir, ''2'', ''etcd''])
                 (pathJoin w [binDir, ''2'', ''etcd''] # args @ [''-proxy=on''])
                 (Environ st)"
    by (simp add: StartDesiredVersion_def assms(1) c lookupValue_def assms(3) Let_def
          h e Environ_say)
  from c s show ?thesis by simp
qed

theorem proxy_dir_always_gets_proxy_flag_witness:
  "detectVersion proxyDirWithMarker ''/var/etcd'' = Inr WALv2_0Proxy
   \<and> osStat proxyDirWithMarker (standbyInfo4 proxyDirWithMarker ''/var/etcd'') = None
   \<and> fst (StartDesiredVersion proxyDirWithMarker ''/opt/etcd''
             [''-data-dir'', ''/var/etcd''] boot)
       = Handoff ''/opt/etcd/2/etcd''
           [''/opt/etcd/2/etcd'', ''-data-dir'', ''/var/etcd'', ''-proxy=on''] []"
proof -
  let ?w = proxyDirWithMarker
  have p: "parseConfig ?w [''-data-dir'', ''/var/etcd''] boot = Inr varEtcd"
    by (simp add: parseConfig_def fromEnv_def boot_def proxyDirWithMarker_def proxyDir_def offline_def)
  have j: "pathJoin ?w [''/opt/etcd'', ''2'', ''etcd''] = ''/opt/etcd/2/etcd''"
    by (simp add: pathJoin_def proxyDirWithMarker_def proxyDir_def offline_def)
  have d: "detectVersion ?w ''/var/etcd'' = Inr WALv2_0Proxy"
    by (simp add: proxyDirWithMarker_def proxyDir_def)
  have o: "osStat ?w (standbyInfo4 ?w ''/var/etcd'') = None"
    by (simp add: proxyDirWithMarker_def)
  have n: "''/var/etcd'' \<noteq> []"
    by simp
  have x: "sysExec ?w (pathJoin ?w [''/opt/etcd'', ''2'', ''etcd''])
             (pathJoin ?w [''/opt/etcd'', ''2'', ''etcd'']
                # [''-data-dir'', ''/var/etcd''] @ [''-proxy=on'']) (Environ boot) = None"
    by (simp add: proxyDirWithMarker_def proxyDir_def offline_def)
  have e: "Environ boot = []"
    by (simp add: Environ_def boot_def)
  from proxy_dir_always_gets_proxy_flag [OF p varEtcd_no_v2_flag varEtcd_data_dir n d x] d o
  show ?thesis by (simp add: j e)
qed

text \<open>
  C3 as stated fails where no standby marker file exists: \<^verbatim>\<open>os.Stat\<close> reports the file
  missing, and \<^verbatim>\<open>-proxy=on\<close> is in the argument vector all the same.
\<close>

theorem proxy_flag_without_marker_counterexample:
  "osStat proxyDir (standbyInfo4 proxyDir ''/var/etcd'') = Some ENOENT
   \<and> fst (StartDesiredVersion proxyDir ''/opt/etcd'' [''-data-dir'', ''/var/etcd''] boot)
       = Handoff ''/opt/etcd/2/etcd''
           [''/opt/etcd/2/etcd'', ''-data-dir'', ''/var/etcd'', ''-proxy=on''] []"
proof -
  have o: "osStat proxyDir p = Some ENOENT" for p
    by (simp add: proxyDir_def offline_def)
  have p: "parseConfig proxyDir [''-data-dir'', ''/var/etcd''] boot = Inr varEtcd"
    by (simp add: parseConfig_def fromEnv_def boot_def proxyDir_def offline_def)
  have j: "pathJoin proxyDir [''/opt/etcd'', ''2'', ''etcd''] = ''/opt/etcd/2/etcd''"
    by (simp add: pathJoin_def proxyDir_def offline_def)
  have d: "detectVersion proxyDir ''/var/etcd'' = Inr WALv2_0Proxy"
    by (simp add: proxyDir_def)
  have c: "checkInternalVersion proxyDir varEtcd boot
             = (Inr internalV2Proxy, say (DetectedVersion WALv2_0Proxy ''/var/etcd'') boot)"
    by (simp add: checkInternalVersion_classified [OF varEtcd_no_v2_flag varEtcd_data_dir _ d])
  have x: "sysExec proxyDir q argv envv = None" for q argv envv
    by (simp add: proxyDir_def offline_def)
  have e: "Environ boot = []"
    by (simp add: Environ_def boot_def)
  have "fst (StartDesiredVersion proxyDir ''/opt/etcd'' [''-data-dir'', ''/var/etcd''] boot)
       = Handoff ''/opt/etcd/2/etcd''
           [''/opt/etcd/2/etcd'', ''-data-dir'', ''/var/etcd'', ''-proxy=on''] []"
    by (simp add: StartDesiredVersion_def p c lookupValue_def varEtcd_data_dir o j
          handoff_def x Environ_say e)
  with o show ?thesis by simp
qed

section \<open>A standby node whose cluster has moved on\<close>

text \<open>
  The arm for a legacy directory, when the marker is running and the probe answers
  \<open>internalV2\<close>: the variable \<^verbatim>\<open>ETCD_DISCOVERY\<close> is removed and the marker's initial
  cluster is appended to \<^verbatim>\<open>os.Args\<close>.
\<close>

lemma standby_peer_reports_V2:
  assumes "clientTLSInfo fs = Inr tls"
    and "decodeStandbyInfo4FromFile w (standbyInfo4 w dataDir) = (Some si, None)"
    and "Running si"
    and "checkInternalVersionByClientURLs w (ClientURLs si) tls st = ((internalV2, None), st1)"
  shows "checkInternalVersion_v0_4 w fs dataDir st
           = (Inr internalV2Proxy,
              st1\<lparr>environ := Unsetenv ''ETCD_DISCOVERY'' (environ st1),
                  osArgs := osArgs st1 @ [''-initial-cluster'', InitialCluster si]\<rparr>)"
  using assms by (simp add: checkInternalVersion_v0_4_def checkInternalVersion_standby_def)

text \<open>
  C2, at a legacy directory with a running standby marker whose peer reports "2", started
  with \<^verbatim>\<open>-data-dir /var/etcd\<close> and \<^verbatim>\<open>ETCD_DISCOVERY\<close> set. The resolver answers
  \<open>internalV2Proxy\<close>, leaves no \<^verbatim>\<open>ETCD_DISCOVERY\<close> in the environment and appends
  \<^verbatim>\<open>-initial-cluster c=http://c:7001\<close> to \<^verbatim>\<open>os.Args\<close>; but the argument vector of the
  handoff is built from \<open>args\<close> and holds no \<^verbatim>\<open>-initial-cluster\<close>.
\<close>

theorem standby_handoff_lacks_initial_cluster:
  "parseConfig standbyOfV2 [''-data-dir'', ''/var/etcd''] bootWithDiscovery
     = Inr varEtcdDiscovery
   \<and> fst (checkInternalVersion standbyOfV2 varEtcdDiscovery bootWithDiscovery)
       = Inr internalV2Proxy
   \<and> environ (snd (checkInternalVersion standbyOfV2 varEtcdDiscovery bootWithDiscovery)) = []
   \<and> osArgs (snd (checkInternalVersion standbyOfV2 varEtcdDiscovery bootWithDiscovery))
       = [''etcd-starter'', ''-data-dir'', ''/var/etcd'',
          ''-initial-cluster'', ''c=http://c:7001'']
   \<and> InitialCluster marker = ''c=http://c:7001''
   \<and> fst (StartDesiredVersion standbyOfV2 ''/opt/etcd''
             [''-data-dir'', ''/var/etcd''] bootWithDiscovery)
       = Handoff ''/opt/etcd/2/etcd''
           [''/opt/etcd/2/etcd'', ''-data-dir'', ''/var/etcd'', ''-proxy=on''] []"
proof -
  let ?w = standbyOfV2
  let ?st1 = "say (DetectedVersion WALv0_4 ''/var/etcd'') bootWithDiscovery"
  let ?st2 = "?st1\<lparr>environ := Unsetenv ''ETCD_DISCOVERY'' (environ ?st1),
                   osArgs := osArgs ?st1 @ [''-initial-cluster'', InitialCluster marker]\<rparr>"
  have d: "detectVersion ?w ''/var/etcd'' = Inr WALv0_4"
    by (simp add: standbyOfV2_def)
  have m: "decodeStandbyInfo4FromFile ?w (standbyInfo4 ?w ''/var/etcd'') = (Some marker, None)"
    by (simp add: standbyOfV2_def)
  have r: "Running marker" and u: "ClientURLs marker = [''http://c:4001'']"
    and i: "InitialCluster marker = ''c=http://c:7001''"
    by (simp_all add: marker_def)
  have t: "clientTLSInfo varEtcdDiscovery = Inr plain"
    by (simp add: clientTLSInfo_def lookupValue_def varEtcdDiscovery_def varEtcd_def
          config_def lookedUpFlags_def v2SpecialFlags_def plain_def)
  have nf: "\<forall>n \<in> set v2SpecialFlags. varEtcdDiscovery n = Some []"
    by (simp add: varEtcdDiscovery_def varEtcd_def config_def lookedUpFlags_def
          v2SpecialFlags_def)
  have dd: "varEtcdDiscovery ''data-dir'' = Some ''/var/etcd''"
    by (simp add: varEtcdDiscovery_def varEtcd_def config_def lookedUpFlags_def
          v2SpecialFlags_def)
  have c: "newDefaultClient ?w plain = Inr (Client None)"
    by (simp add: newDefaultClient_def standbyOfV2_def offline_def plain_def)
  have g: "httpGet ?w (Client None) ''http://c:4001/version''
             = Inr \<lparr>Body = Inr (versionBody ''2'')\<rparr>"
    by (simp add: standbyOfV2_def serving_def)
  have j: "unmarshalStringMap ?w = parseVersionBody"
    by (simp add: standbyOfV2_def offline_def)
  have q: "checkInternalVersionByClientURLs ?w (ClientURLs marker) plain ?st1
             = ((internalV2, None), ?st1)"
    by (simp add: checkInternalVersionByClientURLs_def c u g j parse_2)
  have v: "checkInternalVersion ?w varEtcdDiscovery bootWithDiscovery = (Inr internalV2Proxy, ?st2)"
    by (simp add: checkInternalVersion_classified [OF nf dd _ d]
          standby_peer_reports_V2 [OF t m r q])
  have e: "environ ?st2 = []"
    by (simp add: say_def bootWithDiscovery_def boot_def Unsetenv_def)
  have a: "osArgs ?st2 = [''etcd-starter'', ''-data-dir'', ''/var/etcd'',
                          ''-initial-cluster'', ''c=http://c:7001'']"
    by (simp add: say_def bootWithDiscovery_def boot_def i)
  have p: "parseConfig ?w [''-data-dir'', ''/var/etcd''] bootWithDiscovery
             = Inr varEtcdDiscovery"
    by (simp add: parseConfig_def fromEnv_def bootWithDiscovery_def boot_def
          varEtcdDiscovery_def varEtcd_def config_def lookedUpFlags_def v2SpecialFlags_def
          standbyOfV2_def offline_def)
  have pj: "pathJoin ?w [''/opt/etcd'', ''2'', ''etcd''] = ''/opt/etcd/2/etcd''"
    by (simp add: pathJoin_def standbyOfV2_def offline_def)
  have o: "osStat ?w p = None" for p
    by (simp add: standbyOfV2_def)
  have x: "sysExec ?w p argv envv = None" for p argv envv
    by (simp add: standbyOfV2_def offline_def)
  have en: "Environ ?st2 = []"
    by (simp add: Environ_def say_def bootWithDiscovery_def boot_def Unsetenv_def)
  have s: "fst (StartDesiredVersion ?w ''/opt/etcd'' [''-data-dir'', ''/var/etcd'']
                  bootWithDiscovery)
             = Handoff ''/opt/etcd/2/etcd''
                 [''/opt/etcd/2/etcd'', ''-data-dir'', ''/var/etcd'', ''-proxy=on''] []"
    by (simp add: StartDesiredVersion_def p v lookupValue_def dd o pj
          handoff_def x Let_def Environ_say en)
  from p v e a i s show ?thesis by simp
qed

section \<open>Which errors stop the process\<close>

lemma scanVersions_version:
  "scanVersions w c urls us st = ((ver, None), st') \<Longrightarrow> ver = internalV1 \<or> ver = internalV2"
proof (induction us arbitrary: st)
  case Nil
  then show ?case by simp
next
  case (Cons u us)
  then show ?case
    by (auto simp: Let_def split: sum.splits if_splits)
qed

lemma probe_version:
  "checkInternalVersionByClientURLs w urls tls st = ((ver, None), st') \<Longrightarrow>
   ver = internalV1 \<or> ver = internalV2"
  by (auto simp: checkInternalVersionByClientURLs_def split: sum.splits
        dest: scanVersions_version)

lemma checkLog4_version:
  "checkLog4 w ents = (ver, None) \<Longrightarrow> ver = internalV1 \<or> ver = internalV2"
  by (induction ents) (auto split: sum.splits Command4.splits if_splits)

lemma byLog4_version:
  "checkInternalVersionByLog4 w dataDir = (ver, None) \<Longrightarrow> ver = internalV1 \<or> ver = internalV2"
  by (auto simp: checkInternalVersionByLog4_def split: prod.splits option.splits
        dest: checkLog4_version)

lemma inspector_version:
  "checkInternalVersionByDataDir4 w dataDir = Inr (ver, None) \<Longrightarrow>
   ver = internalV1 \<or> ver = internalV2"
  by (auto simp: checkInternalVersionByDataDir4_def checkSnapshot4_def
        split: prod.splits option.splits sum.splits if_splits dest: byLog4_version)

lemma inspector_halt:
  "checkInternalVersionByDataDir4 w dataDir = Inl h \<Longrightarrow> \<exists>p. h = NilDereference p"
  by (auto simp: checkInternalVersionByDataDir4_def checkSnapshot4_def
        split: prod.splits option.splits sum.splits if_splits)

text \<open>
  The arm for a legacy directory returns an epoch or stops on a nil pointer; it has no
  other way out.
\<close>

lemma v0_4_epoch_or_nil:
  assumes r: "registered fs"
  shows "fst (checkInternalVersion_v0_4 w fs dataDir st)
           \<in> {Inr internalV1, Inr internalV2, Inr internalV2Proxy}
         \<or> (\<exists>p. fst (checkInternalVersion_v0_4 w fs dataDir st) = Inl (NilDereference p))"
proof -
  let ?E = "{Inr internalV1, Inr internalV2, Inr internalV2Proxy} :: (halt + version) set"
  from registered_clientTLSInfo [OF r] obtain ct where ct: "clientTLSInfo fs = Inr ct" ..
  define byDataDir where
    "byDataDir = (case checkInternalVersionByDataDir4 w dataDir of
                    Inl h \<Rightarrow> (Inl h, st)
                  | Inr (ver, Some err) \<Rightarrow>
                      (Inr internalV1, say (FailedToCheckInDataDir dataDir err) st)
                  | Inr (ver, None) \<Rightarrow> (Inr ver, st))"
  have i: "fst byDataDir \<in> ?E \<or> (\<exists>p. fst byDataDir = Inl (NilDereference p))"
    unfolding byDataDir_def
    by (auto split: sum.splits prod.splits option.splits
          dest: inspector_version inspector_halt)
  have b: "fst (checkInternalVersion_standby w fs dataDir si st) \<in> ?E
           \<or> (\<exists>p. fst (checkInternalVersion_standby w fs dataDir si st)
                    = Inl (NilDereference p))" for si
  proof (cases si)
    case None
    with i show ?thesis
      by (simp add: checkInternalVersion_standby_def byDataDir_def)
  next
    case (Some m)
    show ?thesis
    proof (cases "Running m")
      case False
      with Some i show ?thesis
        by (simp add: checkInternalVersion_standby_def byDataDir_def)
    next
      case True
      obtain ver err st1 where
        q: "checkInternalVersionByClientURLs w (ClientURLs m) ct st = ((ver, err), st1)"
        by (cases "checkInternalVersionByClientURLs w (ClientURLs m) ct st") auto
      show ?thesis
      proof (cases err)
        case None
        with q probe_version have "ver = internalV1 \<or> ver = internalV2" by blast
        with Some True q None show ?thesis
          by (auto simp: checkInternalVersion_standby_def ct)
      next
        case (Some e)
        with \<open>si = Some m\<close> True q show ?thesis
          by (simp add: checkInternalVersion_standby_def ct)
      qed
    qed
  qed
  show ?thesis
    unfolding checkInternalVersion_v0_4_def
    using b by (simp split: prod.splits option.splits)
qed

lemma notExist_epoch:
  assumes r: "registered fs"
  shows "fst (checkInternalVersion_notExist w fs st)
           \<in> {Inr internalV1, Inr internalV2, Inr internalV2Proxy}"
proof -
  from registered_lookupValue [OF r, of "''discovery''"]
  obtain d where d: "lookupValue fs ''discovery'' = Inr d"
    by (auto simp: lookedUpFlags_def)
  from registered_lookupValue [OF r, of "''peers''"]
  obtain ps where ps: "lookupValue fs ''peers'' = Inr ps"
    by (auto simp: lookedUpFlags_def)
  from registered_peerTLSInfo [OF r] obtain pt where pt: "peerTLSInfo fs = Inr pt" ..
  from registered_clientTLSInfo [OF r] obtain ct where ct: "clientTLSInfo fs = Inr ct" ..
  obtain dpeers err where g: "getPeersFromDiscoveryURL w d = (dpeers, err)"
    by (cases "getPeersFromDiscoveryURL w d")
  define st1 where "st1 = (case err of None \<Rightarrow> st
                           | Some e \<Rightarrow> say (FailedToGetPeersFromDiscovery d e) st)"
  obtain urls st2 where
    u: "getClientURLsByPeerURLs w (dpeers @ getPeersFromPeersFlag w ps pt) pt st1 = (urls, st2)"
    by (cases "getClientURLsByPeerURLs w (dpeers @ getPeersFromPeersFlag w ps pt) pt st1")
  obtain ver perr st3 where
    q: "checkInternalVersionByClientURLs w urls ct st2 = ((ver, perr), st3)"
    by (cases "checkInternalVersionByClientURLs w urls ct st2") auto
  show ?thesis
  proof (cases perr)
    case None
    with q probe_version have "ver = internalV1 \<or> ver = internalV2" by blast
    with None show ?thesis
      by (auto simp: checkInternalVersion_notExist_def d ps pt ct g u q st1_def [symmetric])
  next
    case (Some e)
    then show ?thesis
      by (simp add: checkInternalVersion_notExist_def d ps pt ct g u q st1_def [symmetric])
  qed
qed

text \<open>
  C8, as amended. The collaborators are taken by what they return to the resolver, a
  value or an error. In a parsed configuration: when no v2-only flag is set, a data
  directory is named and the classifier \<^verbatim>\<open>wal.DetectVersion\<close> returns an error, the
  resolver prints it and ends the process with \<^verbatim>\<open>log.Fatalf\<close>. When the classifier
  answers with one of its six classes, every run of the resolver that does not end on
  a nil pointer returns \<open>internalV1\<close>, \<open>internalV2\<close> or \<open>internalV2Proxy\<close>, whatever
  errors the decoders, the discovery lookup, the TLS settings and the peers return.
\<close>

theorem classifier_error_fatal_other_errors_degrade:
  assumes "registered fs"
  shows "(\<forall>dataDir err.
            (\<forall>n \<in> set v2SpecialFlags. fs n = Some [])
            \<and> fs ''data-dir'' = Some dataDir \<and> dataDir \<noteq> []
            \<and> detectVersion w dataDir = Inl err
          \<longrightarrow> checkInternalVersion w fs st
                = (Inl Fatal, say (FailedToDetect dataDir err) st))
         \<and> (\<forall>dataDir dataver.
               fs ''data-dir'' = Some dataDir \<and> detectVersion w dataDir = Inr dataver
               \<and> (\<forall>x. dataver \<noteq> WALOther x)
               \<and> (\<forall>p. fst (checkInternalVersion w fs st) \<noteq> Inl (NilDereference p))
             \<longrightarrow> fst (checkInternalVersion w fs st)
                   \<in> {Inr internalV1, Inr internalV2, Inr internalV2Proxy})"
proof (intro conjI allI impI)
  fix dataDir err
  assume "(\<forall>n \<in> set v2SpecialFlags. fs n = Some [])
            \<and> fs ''data-dir'' = Some dataDir \<and> dataDir \<noteq> []
            \<and> detectVersion w dataDir = Inl err"
  then show "checkInternalVersion w fs st = (Inl Fatal, say (FailedToDetect dataDir err) st)"
    by (simp add: checkInternalVersion_def no_v2_flag lookupValue_def)
next
  fix dataDir dataver
  assume h: "fs ''data-dir'' = Some dataDir \<and> detectVersion w dataDir = Inr dataver
               \<and> (\<forall>x. dataver \<noteq> WALOther x)
               \<and> (\<forall>p. fst (checkInternalVersion w fs st) \<noteq> Inl (NilDereference p))"
  from assms have v: "\<forall>n \<in> set v2SpecialFlags. fs n \<noteq> None"
    by (auto simp: registered_def list_all_iff lookedUpFlags_def)
  then have a: "anyFlagSet fs v2SpecialFlags = Inr (\<exists>n \<in> set v2SpecialFlags. fs n \<noteq> Some [])"
    by (rule anyFlagSet_registered)
  show "fst (checkInternalVersion w fs st)
          \<in> {Inr internalV1, Inr internalV2, Inr internalV2Proxy}"
  proof (cases "\<exists>n \<in> set v2SpecialFlags. fs n \<noteq> Some []")
    case True
    with a show ?thesis by (simp add: checkInternalVersion_def)
  next
    case False
    then have n: "\<forall>n \<in> set v2SpecialFlags. fs n = Some []" by simp
    show ?thesis
    proof (cases "dataDir = []")
      case True
      with a False h show ?thesis
        by (simp add: checkInternalVersion_def lookupValue_def)
    next
      case nonempty: False
      let ?st1 = "say (DetectedVersion dataver dataDir) st"
      from h have dd: "fs ''data-dir'' = Some dataDir"
        and dv: "detectVersion w dataDir = Inr dataver"
        and o: "\<forall>x. dataver \<noteq> WALOther x"
        and nn: "\<forall>p. fst (checkInternalVersion w fs st) \<noteq> Inl (NilDereference p)"
        by simp_all
      note c = checkInternalVersion_classified [OF n dd nonempty dv, of st]
      show ?thesis
      proof (cases "dataver = WALv0_4")
        case True
        with c have e: "checkInternalVersion w fs st
                          = checkInternalVersion_v0_4 w fs dataDir ?st1"
          by simp
        from v0_4_epoch_or_nil [OF assms, of w dataDir ?st1] nn show ?thesis
          unfolding e by blast
      next
        case False
        with o notExist_epoch [OF assms, of w ?st1] show ?thesis
          unfolding c Let_def by (cases dataver) auto
      qed
    qed
  qed
qed

lemma standbyAloneBare_marker:
  "decodeStandbyInfo4FromFile standbyAloneBare p = (Some marker, None)"
  by (simp add: standbyAloneBare_def)

theorem classifier_error_fatal_other_errors_degrade_witness:
  "detectVersion unreadableDir ''/var/etcd'' = Inl (Error False ''permission denied'')
   \<and> fst (checkInternalVersion unreadableDir varEtcd boot) = Inl Fatal
   \<and> detectVersion standbyAloneBare ''/var/etcd'' = Inr WALv0_4
   \<and> decodeStandbyInfo4FromFile standbyAloneBare (standbyInfo4 standbyAloneBare ''/var/etcd'')
       = (Some marker, None)
   \<and> checkInternalVersionByDataDir4 standbyAloneBare ''/var/etcd''
       = Inl (NilDereference ''dir'')
   \<and> fst (checkInternalVersion standbyAloneBare varEtcd boot) = Inr internalV1
   \<and> fst (checkInternalVersion standbyAloneBare varEtcd boot)
       \<in> {Inr internalV1, Inr internalV2, Inr internalV2Proxy}
   \<and> decodeStandbyInfo4FromFile corruptMarker (standbyInfo4 corruptMarker ''/var/etcd'')
       = (None, Some (Error False ''unexpected end of JSON input''))
   \<and> fst (checkInternalVersion corruptMarker varEtcd boot) = Inr internalV1
   \<and> fst (checkInternalVersion corruptMarker varEtcd boot)
       \<in> {Inr internalV1, Inr internalV2, Inr internalV2Proxy}"
proof -
  have r: "registered varEtcd"
    by (simp add: varEtcd_def registered_config)
  have n0: "''/var/etcd'' \<noteq> []"
    by simp
  \<comment> \<open>the classifier's error\<close>
  have ud: "detectVersion unreadableDir ''/var/etcd'' = Inl (Error False ''permission denied'')"
    by (simp add: unreadableDir_def)
  note t1 = classifier_error_fatal_other_errors_degrade [OF r, of unreadableDir boot]
  from t1 varEtcd_no_v2_flag varEtcd_data_dir n0 ud
  have "checkInternalVersion unreadableDir varEtcd boot
          = (Inl Fatal,
             say (FailedToDetect ''/var/etcd'' (Error False ''permission denied'')) boot)"
    by blast
  then have f: "fst (checkInternalVersion unreadableDir varEtcd boot) = Inl Fatal"
    by simp
  \<comment> \<open>a running standby marker beside a snapshot that the inspector could not read\<close>
  have d: "detectVersion standbyAloneBare ''/var/etcd'' = Inr WALv0_4"
    by (simp add: standbyAloneBare_def legacyDir_def)
  have i: "checkInternalVersionByDataDir4 standbyAloneBare ''/var/etcd''
             = Inl (NilDereference ''dir'')"
    by (simp add: checkInternalVersionByDataDir4_def checkSnapshot4_def lookupChild_def
          standbyAloneBare_def legacyDir_def bareStore_def)
  have c: "newDefaultClient standbyAloneBare plain = Inr (Client None)"
    by (simp add: newDefaultClient_def standbyAloneBare_def legacyDir_def offline_def
          plain_def)
  have x: "\<forall>u \<in> set (ClientURLs marker). \<not> informative standbyAloneBare (Client None) u"
    by (simp add: informative_def reported_def standbyAloneBare_def legacyDir_def
          offline_def)
  have rn: "Running marker"
    by (simp add: marker_def)
  from standby_exhausted [OF standbyAloneBare_marker rn varEtcd_clientTLSInfo c x]
  have v: "fst (checkInternalVersion standbyAloneBare varEtcd boot) = Inr internalV1"
    by (simp add: checkInternalVersion_classified
          [OF varEtcd_no_v2_flag varEtcd_data_dir n0 d])
  then have nn: "\<forall>p. fst (checkInternalVersion standbyAloneBare varEtcd boot)
                       \<noteq> Inl (NilDereference p)"
    by simp
  have o: "\<forall>x. WALv0_4 \<noteq> WALOther x"
    by simp
  note t2 = classifier_error_fatal_other_errors_degrade [OF r, of standbyAloneBare boot]
  from t2 varEtcd_data_dir d o nn
  have e: "fst (checkInternalVersion standbyAloneBare varEtcd boot)
             \<in> {Inr internalV1, Inr internalV2, Inr internalV2Proxy}"
    by blast
  \<comment> \<open>a standby marker that does not decode\<close>
  have cm: "decodeStandbyInfo4FromFile corruptMarker p
              = (None, Some (Error False ''unexpected end of JSON input''))" for p
    by (simp add: corruptMarker_def)
  have cd: "detectVersion corruptMarker ''/var/etcd'' = Inr WALv0_4"
    by (simp add: corruptMarker_def)
  have cv: "fst (checkInternalVersion corruptMarker varEtcd boot) = Inr internalV1"
    by (simp add: checkInternalVersion_classified
          [OF varEtcd_no_v2_flag varEtcd_data_dir n0 cd] checkInternalVersion_v0_4_def cm)
  then have cn: "\<forall>p. fst (checkInternalVersion corruptMarker varEtcd boot)
                       \<noteq> Inl (NilDereference p)"
    by simp
  note t3 = classifier_error_fatal_other_errors_degrade [OF r, of corruptMarker boot]
  from t3 varEtcd_data_dir cd o cn
  have ce: "fst (checkInternalVersion corruptMarker varEtcd boot)
              \<in> {Inr internalV1, Inr internalV2, Inr internalV2Proxy}"
    by blast
  from ud f d standbyAloneBare_marker i v e cm cv ce show ?thesis by simp
qed

text \<open>
  C8 as stated fails on a classification error: when \<^verbatim>\<open>wal.DetectVersion\<close> cannot read
  the data directory, the resolver calls \<^verbatim>\<open>log.Fatalf\<close> and the process ends.
\<close>

theorem classifier_error_is_fatal_counterexample:
  "detectVersion unreadableDir ''/var/etcd'' = Inl (Error False ''permission denied'')
   \<and> parseConfig unreadableDir [''-data-dir'', ''/var/etcd''] boot = Inr varEtcd
   \<and> checkInternalVersion unreadableDir varEtcd boot
       = (Inl Fatal,
          boot\<lparr>out := [FailedToDetect ''/var/etcd'' (Error False ''permission denied'')]\<rparr>)
   \<and> fst (StartDesiredVersion unreadableDir ''/opt/etcd'' [''-data-dir'', ''/var/etcd''] boot)
       = Halted Fatal"
proof -
  have d: "detectVersion unreadableDir ''/var/etcd'' = Inl (Error False ''permission denied'')"
    by (simp add: unreadableDir_def)
  have p: "parseConfig unreadableDir [''-data-dir'', ''/var/etcd''] boot = Inr varEtcd"
    by (simp add: parseConfig_def fromEnv_def boot_def unreadableDir_def offline_def)
  have c: "checkInternalVersion unreadableDir varEtcd boot
             = (Inl Fatal,
                boot\<lparr>out := [FailedToDetect ''/var/etcd''
                                 (Error False ''permission denied'')]\<rparr>)"
    by (simp add: checkInternalVersion_def no_v2_flag [OF varEtcd_no_v2_flag] lookupValue_def
          varEtcd_data_dir d say_def boot_def)
  have s: "fst (StartDesiredVersion unreadableDir ''/opt/etcd''
                  [''-data-dir'', ''/var/etcd''] boot) = Halted Fatal"
    by (simp add: StartDesiredVersion_def p c)
  from d p c s show ?thesis by simp
qed

section \<open>The inspector where no pointer is nil\<close>

text \<open>
  What the inspector answers when it does not stop on a nil pointer: the entry in the
  snapshot, then the first matching set command of the log, decide for \<open>internalV2\<close>;
  a log that decodes and holds no such command gives \<open>internalV1\<close>; a decode error is
  returned, and the resolver turns it into \<open>internalV1\<close> with a line printed.
\<close>

lemma snapshot_entry_gives_V2:
  assumes "decodeLatestSnapshot4FromDir w (snapDir4 w dataDir) = (Some snap4, None)"
    and "unmarshalStore4 w (State snap4) = Inr store"
    and "Root store = Some root"
    and "Children root ''_etcd'' = Some (Some dir)"
    and "Children dir ''next-internal-version'' = Some (Some n)"
    and "Value n = ''2''"
  shows "checkInternalVersionByDataDir4 w dataDir = Inr (internalV2, None)"
  using assms
  by (simp add: checkInternalVersionByDataDir4_def checkSnapshot4_def lookupChild_def)

lemma snapshot_without_entry_reads_log:
  assumes "decodeLatestSnapshot4FromDir w (snapDir4 w dataDir) = (snap, None)"
    and "snap = None \<or>
         (\<exists>snap4 store root dir. snap = Some snap4
            \<and> unmarshalStore4 w (State snap4) = Inr store \<and> Root store = Some root
            \<and> Children root ''_etcd'' = Some (Some dir)
            \<and> (Children dir ''next-internal-version'' = None
                \<or> (\<exists>n. Children dir ''next-internal-version'' = Some (Some n)
                         \<and> Value n \<noteq> ''2'')))"
  shows "checkInternalVersionByDataDir4 w dataDir = Inr (checkInternalVersionByLog4 w dataDir)"
  using assms
  by (auto simp: checkInternalVersionByDataDir4_def checkSnapshot4_def lookupChild_def)

lemma log_set_command_gives_V2:
  assumes "\<forall>x \<in> set pre. \<exists>cmd. newCommand4 w (CommandName x) (Command x) = Inr cmd"
    and "newCommand4 w (CommandName e) (Command e)
           = Inr (SetCommand ''/_etcd/next-internal-version'' ''2'')"
  shows "checkLog4 w (pre @ e # post) = (internalV2, None)"
  using assms by (induction pre) (auto split: Command4.splits)

lemma log_without_set_command_gives_V1:
  assumes "\<forall>x \<in> set ents. \<exists>cmd. newCommand4 w (CommandName x) (Command x) = Inr cmd
             \<and> cmd \<noteq> SetCommand ''/_etcd/next-internal-version'' ''2''"
  shows "checkLog4 w ents = (internalV1, None)"
  using assms by (induction ents) (auto split: Command4.splits)

lemma log_decode_error_is_returned:
  assumes "\<forall>x \<in> set pre. \<exists>cmd. newCommand4 w (CommandName x) (Command x) = Inr cmd
             \<and> cmd \<noteq> SetCommand ''/_etcd/next-internal-version'' ''2''"
    and "newCommand4 w (CommandName e) (Command e) = Inl err"
  shows "checkLog4 w (pre @ e # post) = (internalUnknown, Some err)"
  using assms by (induction pre) (auto split: Command4.splits)

lemma inspector_error_degrades_to_V1:
  assumes "decodeStandbyInfo4FromFile w (standbyInfo4 w dataDir) = (si, merr)"
    and "merr = None \<or> (\<exists>e. merr = Some e \<and> IsNotExist e)"
    and "si = None \<or> (\<exists>m. si = Some m \<and> \<not> Running m)"
    and "checkInternalVersionByDataDir4 w dataDir = Inr (ver, Some err)"
  shows "checkInternalVersion_v0_4 w fs dataDir st
           = (Inr internalV1, say (FailedToCheckInDataDir dataDir err) st)"
  using assms
  by (auto simp: checkInternalVersion_v0_4_def checkInternalVersion_standby_def)

end
